theory Spec2Isabelle
  imports Complex_Main
begin

section \<open>Floating-point values\<close>

text \<open>
  A Python float, a NumPy \<^verbatim>\<open>float64\<close> scalar and an array element are modelled by
  one type: a real number or one of the IEEE special values. Rounding and overflow of
  finite arithmetic are not modelled, and the negative zero is identified with zero.
\<close>

datatype fl = Fin real | PInf | NInf | NaN

text \<open>The comparison \<^verbatim>\<open>a < b\<close>: false as soon as one side is NaN.\<close>

fun fl_less :: "fl \<Rightarrow> fl \<Rightarrow> bool" where
  "fl_less NaN _ = False"
| "fl_less _ NaN = False"
| "fl_less (Fin a) (Fin b) = (a < b)"
| "fl_less (Fin a) PInf = True"
| "fl_less (Fin a) NInf = False"
| "fl_less PInf _ = False"
| "fl_less NInf NInf = False"
| "fl_less NInf _ = True"

fun fl_neg :: "fl \<Rightarrow> fl" where
  "fl_neg (Fin a) = Fin (- a)"
| "fl_neg PInf = NInf"
| "fl_neg NInf = PInf"
| "fl_neg NaN = NaN"

fun fl_add :: "fl \<Rightarrow> fl \<Rightarrow> fl" where
  "fl_add NaN _ = NaN"
| "fl_add _ NaN = NaN"
| "fl_add (Fin a) (Fin b) = Fin (a + b)"
| "fl_add PInf NInf = NaN"
| "fl_add NInf PInf = NaN"
| "fl_add PInf _ = PInf"
| "fl_add NInf _ = NInf"
| "fl_add (Fin a) PInf = PInf"
| "fl_add (Fin a) NInf = NInf"

definition fl_sub :: "fl \<Rightarrow> fl \<Rightarrow> fl" where
  "fl_sub a b = fl_add a (fl_neg b)"

fun fl_mul :: "fl \<Rightarrow> fl \<Rightarrow> fl" where
  "fl_mul NaN _ = NaN"
| "fl_mul _ NaN = NaN"
| "fl_mul (Fin a) (Fin b) = Fin (a * b)"
| "fl_mul (Fin a) PInf = (if a = 0 then NaN else if 0 < a then PInf else NInf)"
| "fl_mul (Fin a) NInf = (if a = 0 then NaN else if 0 < a then NInf else PInf)"
| "fl_mul PInf (Fin b) = (if b = 0 then NaN else if 0 < b then PInf else NInf)"
| "fl_mul NInf (Fin b) = (if b = 0 then NaN else if 0 < b then NInf else PInf)"
| "fl_mul PInf PInf = PInf"
| "fl_mul PInf NInf = NInf"
| "fl_mul NInf PInf = NInf"
| "fl_mul NInf NInf = PInf"

text \<open>
  NumPy's array division: a zero divisor gives an infinity or NaN (with a warning),
  never an exception.
\<close>

fun fl_div :: "fl \<Rightarrow> fl \<Rightarrow> fl" where
  "fl_div NaN _ = NaN"
| "fl_div _ NaN = NaN"
| "fl_div (Fin a) (Fin b) =
     (if b = 0 then (if a = 0 then NaN else if 0 < a then PInf else NInf)
      else Fin (a / b))"
| "fl_div (Fin a) PInf = Fin 0"
| "fl_div (Fin a) NInf = Fin 0"
| "fl_div PInf (Fin b) = (if 0 \<le> b then PInf else NInf)"
| "fl_div NInf (Fin b) = (if 0 \<le> b then NInf else PInf)"
| "fl_div PInf PInf = NaN"
| "fl_div PInf NInf = NaN"
| "fl_div NInf PInf = NaN"
| "fl_div NInf NInf = NaN"

fun is_finite :: "fl \<Rightarrow> bool" where
  "is_finite (Fin a) = True"
| "is_finite _ = False"

section \<open>Arrays, references and the store\<close>

text \<open>
  An \<^verbatim>\<open>ndarray\<close> is its shape and its elements in row-major order. Arrays are
  mutable objects, so they live in a store and are passed by reference; floats are
  immutable and are passed by value. The store allocates addresses in increasing order:
  the addresses below \<open>lim\<close> are the objects that exist.
\<close>

record ndarray =
  shape :: "nat list"
  flat :: "fl list"

type_synonym addr = nat

record heap =
  cells :: "addr \<Rightarrow> ndarray"
  lim :: addr

datatype val = Num fl | Arr addr

datatype error =
    NameError string
  | ValueError
  | IndexError
  | TypeError
  | AssertionError
  | FitFailed

type_synonym 'a py = "heap \<Rightarrow> (error + 'a) \<times> heap"

definition ret :: "'a \<Rightarrow> 'a py" where
  "ret x = (\<lambda>h. (Inr x, h))"

definition raise :: "error \<Rightarrow> 'a py" where
  "raise e = (\<lambda>h. (Inl e, h))"

text \<open>Sequencing: an exception of the first computation skips the second.\<close>

definition bnd :: "'a py \<Rightarrow> ('a \<Rightarrow> 'b py) \<Rightarrow> 'b py" where
  "bnd m f = (\<lambda>h. case m h of (Inl e, h') \<Rightarrow> (Inl e, h') | (Inr x, h') \<Rightarrow> f x h')"

definition lift :: "error + 'a \<Rightarrow> 'a py" where
  "lift r = (case r of Inl e \<Rightarrow> raise e | Inr x \<Rightarrow> ret x)"

definition contents :: "heap \<Rightarrow> val \<Rightarrow> ndarray" where
  "contents h v = (case v of Num x \<Rightarrow> \<lparr>shape = [], flat = [x]\<rparr> | Arr p \<Rightarrow> cells h p)"

definition get_contents :: "val \<Rightarrow> ndarray py" where
  "get_contents v = (\<lambda>h. (Inr (contents h v), h))"

definition alloc :: "ndarray \<Rightarrow> val py" where
  "alloc a = (\<lambda>h. (Inr (Arr (lim h)), h\<lparr>cells := (cells h)(lim h := a), lim := Suc (lim h)\<rparr>))"

text \<open>
  Name resolution. \<open>bound\<close> lists the names bound where the name is read; a name that is
  not bound there, and is neither a module global nor a builtin, raises NameError.
\<close>

definition load_name :: "(string \<times> 'a) list \<Rightarrow> string \<Rightarrow> 'a py" where
  "load_name bound n = (case map_of bound n of Some v \<Rightarrow> ret v | None \<Rightarrow> raise (NameError n))"

text \<open>A list comprehension: the elements are computed in order, the first exception ends it.\<close>

fun comprehension :: "('a \<Rightarrow> 'b py) \<Rightarrow> 'a list \<Rightarrow> 'b list py" where
  "comprehension f [] = ret []"
| "comprehension f (x # xs) =
     bnd (f x) (\<lambda>y. bnd (comprehension f xs) (\<lambda>ys. ret (y # ys)))"

section \<open>NumPy, SciPy and builtin operations\<close>

text \<open>
  The operations of NumPy, of SciPy and of the interpreter that the module calls, by
  their documented behaviour. An operation that returns an array returns a new array.
\<close>

definition np_shape :: "val \<Rightarrow> nat list py" where
  "np_shape v = bnd (get_contents v) (\<lambda>a. ret (shape a))"

text \<open>\<^verbatim>\<open>len(a)\<close>: the first extent; a float or a 0-d array has no length.\<close>

definition py_len :: "val \<Rightarrow> nat py" where
  "py_len v = bnd (get_contents v) (\<lambda>a. case shape a of [] \<Rightarrow> raise TypeError | d # ds \<Rightarrow> ret d)"

text \<open>
  The builtins \<^verbatim>\<open>min\<close> and \<^verbatim>\<open>max\<close> walk the elements and keep the first one
  unless a later one compares smaller (greater).
\<close>

definition py_min_list :: "fl list \<Rightarrow> error + fl" where
  "py_min_list xs =
     (case xs of [] \<Rightarrow> Inl ValueError
      | x # r \<Rightarrow> Inr (fold (\<lambda>y m. if fl_less y m then y else m) r x))"

definition py_max_list :: "fl list \<Rightarrow> error + fl" where
  "py_max_list xs =
     (case xs of [] \<Rightarrow> Inl ValueError
      | x # r \<Rightarrow> Inr (fold (\<lambda>y m. if fl_less m y then y else m) r x))"

definition builtin_min :: "val \<Rightarrow> fl py" where
  "builtin_min v = bnd (get_contents v) (\<lambda>a. lift (py_min_list (flat a)))"

definition builtin_max :: "val \<Rightarrow> fl py" where
  "builtin_max v = bnd (get_contents v) (\<lambda>a. lift (py_max_list (flat a)))"

text \<open>
  \<^verbatim>\<open>np.min\<close> and \<^verbatim>\<open>np.max\<close> reduce over all elements, fail on an empty array and
  return NaN as soon as one element is NaN.
\<close>

definition np_amin :: "fl list \<Rightarrow> error + fl" where
  "np_amin xs = (if NaN \<in> set xs then Inr NaN else py_min_list xs)"

definition np_amax :: "fl list \<Rightarrow> error + fl" where
  "np_amax xs = (if NaN \<in> set xs then Inr NaN else py_max_list xs)"

definition np_min :: "val \<Rightarrow> fl py" where
  "np_min v = bnd (get_contents v) (\<lambda>a. lift (np_amin (flat a)))"

definition np_max :: "val \<Rightarrow> fl py" where
  "np_max v = bnd (get_contents v) (\<lambda>a. lift (np_amax (flat a)))"

text \<open>
  A Python list of arrays or scalars as one array: the elements must agree in shape,
  and the list's length becomes the first extent.
\<close>

definition stack :: "ndarray list \<Rightarrow> error + ndarray" where
  "stack as =
     (case as of [] \<Rightarrow> Inr \<lparr>shape = [0], flat = []\<rparr>
      | a # r \<Rightarrow>
          if list_all (\<lambda>b. shape b = shape a) r
          then Inr \<lparr>shape = length as # shape a, flat = concat (map flat as)\<rparr>
          else Inl ValueError)"

definition as_ndarray :: "val list \<Rightarrow> ndarray py" where
  "as_ndarray vs = bnd (comprehension get_contents vs) (\<lambda>as. lift (stack as))"

definition np_min_of :: "val list \<Rightarrow> fl py" where
  "np_min_of vs = bnd (as_ndarray vs) (\<lambda>a. lift (np_amin (flat a)))"

definition np_max_of :: "val list \<Rightarrow> fl py" where
  "np_max_of vs = bnd (as_ndarray vs) (\<lambda>a. lift (np_amax (flat a)))"

definition np_array :: "val list \<Rightarrow> val py" where
  "np_array vs = bnd (as_ndarray vs) alloc"

definition np_array2 :: "val list list \<Rightarrow> val py" where
  "np_array2 rows =
     bnd (comprehension as_ndarray rows) (\<lambda>as. bnd (lift (stack as)) alloc)"

text \<open>\<^verbatim>\<open>np.append\<close> and \<^verbatim>\<open>np.delete\<close> without an axis work on the flattened array.\<close>

definition np_append :: "val \<Rightarrow> val \<Rightarrow> val py" where
  "np_append arr v =
     bnd (get_contents arr) (\<lambda>a. bnd (get_contents v) (\<lambda>b.
       alloc \<lparr>shape = [length (flat a) + length (flat b)], flat = flat a @ flat b\<rparr>))"

definition np_delete :: "val \<Rightarrow> nat \<Rightarrow> val py" where
  "np_delete arr i =
     bnd (get_contents arr) (\<lambda>a.
       if i < length (flat a)
       then alloc \<lparr>shape = [length (flat a) - 1], flat = take i (flat a) @ drop (Suc i) (flat a)\<rparr>
       else raise IndexError)"

text \<open>
  Indexing with one and with two integers. An index that leaves extents over selects a
  sub-array; NumPy returns a view, which the model allocates as an array of its own:
  the module never writes through one.
\<close>

definition getitem1 :: "val \<Rightarrow> nat \<Rightarrow> val py" where
  "getitem1 v i =
     bnd (get_contents v) (\<lambda>a.
       case shape a of
         [] \<Rightarrow> raise IndexError
       | d # ds \<Rightarrow>
           if i < d then
             (if ds = [] then ret (Num (flat a ! i))
              else alloc \<lparr>shape = ds,
                     flat = take (prod_list ds) (drop (i * prod_list ds) (flat a))\<rparr>)
           else raise IndexError)"

definition getitem2 :: "val \<Rightarrow> nat \<Rightarrow> nat \<Rightarrow> val py" where
  "getitem2 v i j =
     bnd (get_contents v) (\<lambda>a.
       case shape a of
         d0 # d1 # ds \<Rightarrow>
           if i < d0 \<and> j < d1 then
             (if ds = [] then ret (Num (flat a ! (i * d1 + j)))
              else alloc \<lparr>shape = ds,
                     flat = take (prod_list ds) (drop ((i * d1 + j) * prod_list ds) (flat a))\<rparr>)
           else raise IndexError
       | _ \<Rightarrow> raise IndexError)"

text \<open>
  Elementwise arithmetic with broadcasting: the shapes are aligned at their last
  extents, and an extent of one is repeated. A 0-d result is returned as a scalar.
\<close>

fun broadcast_dims :: "nat list \<Rightarrow> nat list \<Rightarrow> error + nat list" where
  "broadcast_dims [] [] = Inr []"
| "broadcast_dims (x # xs) (y # ys) =
     (case broadcast_dims xs ys of
        Inl e \<Rightarrow> Inl e
      | Inr ds \<Rightarrow>
          if x = y \<or> y = 1 then Inr (x # ds)
          else if x = 1 then Inr (y # ds)
          else Inl ValueError)"
| "broadcast_dims _ _ = Inl ValueError"

definition pad_shape :: "nat \<Rightarrow> nat list \<Rightarrow> nat list" where
  "pad_shape n s = replicate (n - length s) 1 @ s"

fun indices :: "nat list \<Rightarrow> nat list list" where
  "indices [] = [[]]"
| "indices (d # ds) = concat (map (\<lambda>i. map ((#) i) (indices ds)) [0..<d])"

fun offset :: "nat list \<Rightarrow> nat list \<Rightarrow> nat" where
  "offset (d # ds) (i # is) = (if d = 1 then 0 else i) * prod_list ds + offset ds is"
| "offset _ _ = 0"

definition broadcast2 :: "(fl \<Rightarrow> fl \<Rightarrow> fl) \<Rightarrow> ndarray \<Rightarrow> ndarray \<Rightarrow> error + ndarray" where
  "broadcast2 f a b =
     (let n = max (length (shape a)) (length (shape b));
          sa = pad_shape n (shape a);
          sb = pad_shape n (shape b)
      in case broadcast_dims sa sb of
           Inl e \<Rightarrow> Inl e
         | Inr s \<Rightarrow>
             Inr \<lparr>shape = s,
                  flat = map (\<lambda>ix. f (flat a ! offset sa ix) (flat b ! offset sb ix))
                           (indices s)\<rparr>)"

definition np_binop :: "(fl \<Rightarrow> fl \<Rightarrow> fl) \<Rightarrow> val \<Rightarrow> val \<Rightarrow> val py" where
  "np_binop f x y =
     bnd (get_contents x) (\<lambda>a. bnd (get_contents y) (\<lambda>b.
     bnd (lift (broadcast2 f a b)) (\<lambda>r.
       if shape r = [] then ret (Num (flat r ! 0)) else alloc r)))"

text \<open>
  \<^verbatim>\<open>a > c\<close> for a scalar \<open>c\<close>: the array of truth values, with the shape of \<open>a\<close>.
\<close>

definition np_greater :: "val \<Rightarrow> fl \<Rightarrow> (nat list \<times> bool list) py" where
  "np_greater v c = bnd (get_contents v) (\<lambda>a. ret (shape a, map (\<lambda>x. fl_less c x) (flat a)))"

text \<open>
  \<^verbatim>\<open>target[mask] = c\<close>: the assignment writes into the array \<open>target\<close> refers to.
  The mask's shape must be an initial part of the array's shape; each truth value
  governs the block of elements below its position.
\<close>

definition mask_fill :: "nat \<Rightarrow> bool list \<Rightarrow> fl \<Rightarrow> fl list \<Rightarrow> fl list" where
  "mask_fill block mb c xs =
     map (\<lambda>(k, x). if mb ! (k div block) then c else x) (zip [0..<length xs] xs)"

definition setitem_mask :: "val \<Rightarrow> nat list \<times> bool list \<Rightarrow> fl \<Rightarrow> unit py" where
  "setitem_mask target m c =
     (case target of
        Num x \<Rightarrow> raise TypeError
      | Arr p \<Rightarrow> (\<lambda>h.
          let a = cells h p in
          if take (length (fst m)) (shape a) = fst m then
            (Inr (),
             h\<lparr>cells := (cells h)
                 (p := a\<lparr>flat := mask_fill (prod_list (drop (length (fst m)) (shape a)))
                                  (snd m) c (flat a)\<rparr>)\<rparr>)
          else (Inl IndexError, h)))"

text \<open>
  The spline library. \<^verbatim>\<open>SmoothBivariateSpline\<close> is SciPy's, not this module's: the
  fit and the evaluation of a fitted spline are parameters of the model. The fit gets
  the degrees, the bounding box (\<open>None\<close> when the call passes none) and the contents of
  the three data arrays, and fails or returns a spline; the evaluation gets the
  contents of the two query arrays. \<^verbatim>\<open>ev\<close> returns a new array, also for scalar
  arguments.
\<close>

record 's lib =
  fit :: "nat \<Rightarrow> nat \<Rightarrow> (fl \<times> fl \<times> fl \<times> fl) option \<Rightarrow> ndarray \<Rightarrow> ndarray \<Rightarrow> ndarray \<Rightarrow> error + 's"
  ev :: "'s \<Rightarrow> ndarray \<Rightarrow> ndarray \<Rightarrow> error + ndarray"

definition SmoothBivariateSpline ::
  "'s lib \<Rightarrow> val \<Rightarrow> val \<Rightarrow> val \<Rightarrow> (fl \<times> fl \<times> fl \<times> fl) option \<Rightarrow> nat \<Rightarrow> nat \<Rightarrow> 's py" where
  "SmoothBivariateSpline L x y z bbox kx ky =
     bnd (get_contents x) (\<lambda>a. bnd (get_contents y) (\<lambda>b. bnd (get_contents z) (\<lambda>c.
       lift (fit L kx ky bbox a b c))))"

definition spline_ev :: "'s lib \<Rightarrow> 's \<Rightarrow> val \<Rightarrow> val \<Rightarrow> val py" where
  "spline_ev L s xi yi =
     bnd (get_contents xi) (\<lambda>a. bnd (get_contents yi) (\<lambda>b.
     bnd (lift (ev L s a b)) alloc))"

section \<open>The module\<close>

subsection \<open>\<^verbatim>\<open>spline_model\<close>\<close>

text \<open>Lines 50 to 54: the bounding box \<^verbatim>\<open>[x0, x1, y0, y1]\<close> of the data and the query.\<close>

definition spline_model_bbox :: "val \<Rightarrow> val \<Rightarrow> val \<Rightarrow> val \<Rightarrow> (fl \<times> fl \<times> fl \<times> fl) py" where
  "spline_model_bbox width_test ratio_perim_area_test width_data ratio_perim_area_data =
     bnd (np_min width_data) (\<lambda>a. bnd (np_min width_test) (\<lambda>b.
     bnd (np_min_of [Num a, Num b]) (\<lambda>x0.
     bnd (np_max width_data) (\<lambda>a. bnd (np_max width_test) (\<lambda>b.
     bnd (np_max_of [Num a, Num b]) (\<lambda>x1.
     bnd (np_min ratio_perim_area_data) (\<lambda>a. bnd (np_min ratio_perim_area_test) (\<lambda>b.
     bnd (np_min_of [Num a, Num b]) (\<lambda>y0.
     bnd (np_max ratio_perim_area_data) (\<lambda>a. bnd (np_max ratio_perim_area_test) (\<lambda>b.
     bnd (np_max_of [Num a, Num b]) (\<lambda>y1.
     ret (x0, x1, y0, y1)))))))))))))"

definition spline_model :: "'s lib \<Rightarrow> val \<Rightarrow> val \<Rightarrow> val \<Rightarrow> val \<Rightarrow> val \<Rightarrow> val py" where
  "spline_model L width_test ratio_perim_area_test width_data ratio_perim_area_data factor_data =
     bnd (spline_model_bbox width_test ratio_perim_area_test width_data ratio_perim_area_data)
       (\<lambda>bbox.
     bnd (SmoothBivariateSpline L width_data ratio_perim_area_data factor_data (Some bbox) 2 1)
       (\<lambda>spline.
     spline_ev L spline width_test ratio_perim_area_test))"

subsection \<open>\<^verbatim>\<open>_single_calculate_deformability\<close>\<close>

text \<open>
  Lines 88 to 93: the data with the test point appended, and the bounding box of that.
\<close>

definition single_bbox :: "val \<Rightarrow> val \<Rightarrow> val \<Rightarrow> val \<Rightarrow> (val \<times> val \<times> fl \<times> fl \<times> fl \<times> fl) py" where
  "single_bbox x_test y_test x_data y_data =
     bnd (np_append x_data x_test) (\<lambda>adjusted_x_data.
     bnd (np_append y_data y_test) (\<lambda>adjusted_y_data.
     bnd (builtin_min adjusted_x_data) (\<lambda>x0. bnd (builtin_max adjusted_x_data) (\<lambda>x1.
     bnd (builtin_min adjusted_y_data) (\<lambda>y0. bnd (builtin_max adjusted_y_data) (\<lambda>y1.
     ret (adjusted_x_data, adjusted_y_data, x0, x1, y0, y1)))))))"

text \<open>
  Line 98 and line 99 read \<^verbatim>\<open>initial_fit\<close>. The function binds its five parameters,
  \<^verbatim>\<open>deviation\<close>, \<^verbatim>\<open>adjusted_x_data\<close>, \<^verbatim>\<open>adjusted_y_data\<close>, \<^verbatim>\<open>bbox\<close> and
  \<^verbatim>\<open>initial_model\<close> before that line, and the module has no global of that name.
\<close>

definition single_calculate_deformability ::
  "'s lib \<Rightarrow> val \<Rightarrow> val \<Rightarrow> val \<Rightarrow> val \<Rightarrow> val \<Rightarrow> val py" where
  "single_calculate_deformability L x_test y_test x_data y_data z_data =
     (let deviation = Num (Fin (2 / 100)) in
      bnd (single_bbox x_test y_test x_data y_data)
        (\<lambda>(adjusted_x_data, adjusted_y_data, bbox).
      bnd (SmoothBivariateSpline L x_data y_data z_data (Some bbox) 2 1) (\<lambda>spline.
      bnd (spline_ev L spline x_test y_test) (\<lambda>initial_model.
      let bound = [(''x_test'', x_test), (''y_test'', y_test), (''x_data'', x_data),
                   (''y_data'', y_data), (''z_data'', z_data), (''deviation'', deviation),
                   (''adjusted_x_data'', adjusted_x_data),
                   (''adjusted_y_data'', adjusted_y_data),
                   (''initial_model'', initial_model)] in
      bnd (load_name bound ''initial_fit'') (\<lambda>initial_fit.
      bnd (np_binop fl_add initial_fit deviation) (\<lambda>zp.
      bnd (np_append z_data zp) (\<lambda>pos_adjusted_z_data.
      bnd (load_name bound ''initial_fit'') (\<lambda>initial_fit.
      bnd (np_binop fl_sub initial_fit deviation) (\<lambda>zn.
      bnd (np_append z_data zn) (\<lambda>neg_adjusted_z_data.
      bnd (SmoothBivariateSpline L adjusted_x_data adjusted_y_data pos_adjusted_z_data None 2 1)
        (\<lambda>pos_spline.
      bnd (spline_ev L pos_spline x_test y_test) (\<lambda>pos_adjusted_model.
      bnd (SmoothBivariateSpline L adjusted_x_data adjusted_y_data neg_adjusted_z_data None 2 1)
        (\<lambda>neg_spline.
      bnd (spline_ev L neg_spline x_test y_test) (\<lambda>neg_adjusted_model.
      bnd (np_binop fl_sub pos_adjusted_model initial_model) (\<lambda>pos_shift.
      bnd (np_binop fl_div pos_shift deviation) (\<lambda>deformability_from_pos_adjustment.
      bnd (np_binop fl_sub initial_model neg_adjusted_model) (\<lambda>neg_shift.
      bnd (np_binop fl_div neg_shift deviation) (\<lambda>deformability_from_neg_adjustment.
      bnd (np_max_of [deformability_from_pos_adjustment, deformability_from_neg_adjustment])
        (\<lambda>deformability.
      ret (Num deformability))))))))))))))))))))"

subsection \<open>\<^verbatim>\<open>calculate_deformability\<close>\<close>

text \<open>
  The comprehension of lines 157 to 162 carries a colon after \<^verbatim>\<open>range(dim[1])\<close>
  that the grammar does not allow. It is read here as the nested comprehension it
  spells out: \<^verbatim>\<open>j\<close> over \<^verbatim>\<open>range(dim[1])\<close> outside, \<^verbatim>\<open>i\<close> over
  \<^verbatim>\<open>range(dim[0])\<close> inside. Line 164 reads \<^verbatim>\<open>dims\<close>; the function binds
  \<^verbatim>\<open>dim\<close>, and the module has no global \<^verbatim>\<open>dims\<close>.
\<close>

definition calculate_deformability ::
  "'s lib \<Rightarrow> val \<Rightarrow> val \<Rightarrow> val \<Rightarrow> val \<Rightarrow> val \<Rightarrow> val py" where
  "calculate_deformability L x_test y_test x_data y_data z_data =
     bnd (np_shape x_test) (\<lambda>dim.
     bnd (if length dim = 0 then
            single_calculate_deformability L x_test y_test x_data y_data z_data
          else if length dim = 1 then
            bnd (comprehension
                   (\<lambda>i. bnd (getitem1 x_test i) (\<lambda>x. bnd (getitem1 y_test i) (\<lambda>y.
                          single_calculate_deformability L x y x_data y_data z_data)))
                   [0..<dim ! 0])
              np_array
          else
            bnd (comprehension
                   (\<lambda>j. comprehension
                          (\<lambda>i. bnd (getitem2 x_test i j) (\<lambda>x. bnd (getitem2 y_test i j) (\<lambda>y.
                                 single_calculate_deformability L x y x_data y_data z_data)))
                          [0..<dim ! 0])
                   [0..<dim ! 1])
              np_array2)
       (\<lambda>deformability.
     bnd (np_shape deformability) (\<lambda>shape_of_result.
     bnd (load_name [(''dim'', dim)] ''dims'') (\<lambda>dims.
     if shape_of_result = dims then ret deformability else raise AssertionError))))"

subsection \<open>\<^verbatim>\<open>spline_model_with_deformability\<close>\<close>

text \<open>Line 205, \<^verbatim>\<open>model_factor[deformability > 0.5] = np.nan\<close>.\<close>

definition mask_invalid :: "val \<Rightarrow> val \<Rightarrow> unit py" where
  "mask_invalid model_factor deformability =
     bnd (np_greater deformability (Fin (1 / 2))) (\<lambda>m. setitem_mask model_factor m NaN)"

definition spline_model_with_deformability ::
  "'s lib \<Rightarrow> val \<Rightarrow> val \<Rightarrow> val \<Rightarrow> val \<Rightarrow> val \<Rightarrow> val py" where
  "spline_model_with_deformability L width_test ratio_perim_area_test
       width_data ratio_perim_area_data factor_data =
     bnd (calculate_deformability L width_test ratio_perim_area_test
            width_data ratio_perim_area_data factor_data) (\<lambda>deformability.
     bnd (spline_model L width_test ratio_perim_area_test
            width_data ratio_perim_area_data factor_data) (\<lambda>model_factor.
     bnd (mask_invalid model_factor deformability) (\<lambda>_.
     ret model_factor)))"

subsection \<open>\<^verbatim>\<open>calculate_percent_prediction_differences\<close>\<close>

definition calculate_percent_prediction_differences ::
  "'s lib \<Rightarrow> val \<Rightarrow> val \<Rightarrow> val \<Rightarrow> val py" where
  "calculate_percent_prediction_differences L width_data ratio_perim_area_data factor_data =
     bnd (py_len width_data) (\<lambda>n.
     bnd (comprehension
            (\<lambda>i. bnd (getitem1 width_data i) (\<lambda>width_test.
                   bnd (getitem1 ratio_perim_area_data i) (\<lambda>ratio_perim_area_test.
                   bnd (np_delete width_data i) (\<lambda>widths.
                   bnd (np_delete ratio_perim_area_data i) (\<lambda>ratios.
                   bnd (np_delete factor_data i) (\<lambda>factors.
                   spline_model_with_deformability L width_test ratio_perim_area_test
                     widths ratios factors))))))
            [0..<n]) (\<lambda>predictions.
     bnd (np_array predictions) (\<lambda>predicted.
     bnd (np_binop fl_sub factor_data predicted) (\<lambda>difference.
     bnd (np_binop fl_mul (Num (Fin 100)) difference) (\<lambda>scaled.
     np_binop fl_div scaled factor_data)))))"

section \<open>Notions used in the statements\<close>

text \<open>A value exists in a store: a float always, an array when it has been allocated.\<close>

definition exists_in :: "heap \<Rightarrow> val \<Rightarrow> bool" where
  "exists_in h v = (case v of Num x \<Rightarrow> True | Arr p \<Rightarrow> p < lim h)"

text \<open>
  \<open>unchanged h h'\<close>: every object of \<open>h\<close> is in \<open>h'\<close> with the contents it has in \<open>h\<close>.
\<close>

definition unchanged :: "heap \<Rightarrow> heap \<Rightarrow> bool" where
  "unchanged h h' = (lim h \<le> lim h' \<and> (\<forall>p < lim h. cells h' p = cells h p))"

text \<open>Two arguments, each in its own store, that hold the same data.\<close>

definition same_input :: "heap \<Rightarrow> val \<Rightarrow> heap \<Rightarrow> val \<Rightarrow> bool" where
  "same_input h v h' v' = (exists_in h v \<and> exists_in h' v' \<and> contents h v = contents h' v')"

text \<open>What a caller observes of a call: the exception, or the data of the result.\<close>

definition outcome :: "(error + val) \<times> heap \<Rightarrow> error + ndarray" where
  "outcome r = (case fst r of Inl e \<Rightarrow> Inl e | Inr v \<Rightarrow> Inr (contents (snd r) v))"

text \<open>
  The order of the floats other than NaN, and the least and the greatest element of a set
  of floats.
\<close>

definition fl_le :: "fl \<Rightarrow> fl \<Rightarrow> bool" where
  "fl_le a b = (a = b \<or> fl_less a b)"

definition lower_end :: "fl set \<Rightarrow> fl \<Rightarrow> bool" where
  "lower_end S m = (m \<in> S \<and> (\<forall>v \<in> S. fl_le m v))"

definition upper_end :: "fl set \<Rightarrow> fl \<Rightarrow> bool" where
  "upper_end S m = (m \<in> S \<and> (\<forall>v \<in> S. fl_le v m))"

definition elements :: "heap \<Rightarrow> val \<Rightarrow> fl set" where
  "elements h v = set (flat (contents h v))"

section \<open>Concrete inputs\<close>

text \<open>
  A stand-in for the spline library, to run the model on concrete inputs: the fit wants
  three equally long arrays of at least \<open>(kx + 1) * (ky + 1)\<close> points, the fitted
  surface is constant, and the evaluation wants two arrays of one shape.
\<close>

definition constant_lib :: "fl lib" where
  "constant_lib =
     \<lparr>fit = (\<lambda>kx ky bbox x y z.
         if length (flat x) = length (flat z) \<and> length (flat y) = length (flat z)
            \<and> (kx + 1) * (ky + 1) \<le> length (flat z)
         then Inr (flat z ! 0) else Inl FitFailed),
      ev = (\<lambda>s x y.
         if shape x = shape y then Inr \<lparr>shape = shape x, flat = map (\<lambda>_. s) (flat x)\<rparr>
         else Inl ValueError)\<rparr>"

definition vector :: "real list \<Rightarrow> ndarray" where
  "vector xs = \<lparr>shape = [length xs], flat = map Fin xs\<rparr>"

definition store_of :: "ndarray list \<Rightarrow> heap" where
  "store_of as = \<lparr>cells = (\<lambda>p. if p < length as then as ! p else \<lparr>shape = [0], flat = []\<rparr>),
                  lim = length as\<rparr>"

text \<open>
  Eight calibration points: widths, perimeter/area ratios and insert factors. In
  \<open>calibration\<close> they are the arrays at the addresses 0, 1 and 2; in
  \<open>calibration_later\<close> the same data sits at the addresses 1, 2 and 3, behind another
  array.
\<close>

definition calibration_widths :: ndarray where
  "calibration_widths = vector [2, 4, 6, 8, 10, 12, 14, 16]"

definition calibration_ratios :: ndarray where
  "calibration_ratios = vector [2, 1, 2 / 3, 1 / 2, 2 / 5, 1 / 3, 2 / 7, 1 / 4]"

definition calibration_factors :: ndarray where
  "calibration_factors =
     vector [95 / 100, 97 / 100, 99 / 100, 1, 1003 / 1000, 1005 / 1000, 1006 / 1000, 1007 / 1000]"

definition calibration :: heap where
  "calibration = store_of [calibration_widths, calibration_ratios, calibration_factors]"

definition calibration_later :: heap where
  "calibration_later =
     store_of [vector [7], calibration_widths, calibration_ratios, calibration_factors]"

text \<open>
  Queries of each shape, behind the calibration data: at the addresses 3 and 4 two query
  points as 1-d arrays of widths and of ratios, at 5 an empty 1-d array, at 6 and 7 the
  same two points as a grid of one row and two columns, at 8 a grid of no row and two
  columns.
\<close>

definition queries :: heap where
  "queries = store_of
     [calibration_widths, calibration_ratios, calibration_factors,
      vector [9, 100], vector [4 / 9, 1 / 25], vector [],
      \<lparr>shape = [1, 2], flat = [Fin 9, Fin 100]\<rparr>,
      \<lparr>shape = [1, 2], flat = [Fin (4 / 9), Fin (1 / 25)]\<rparr>,
      \<lparr>shape = [0, 2], flat = []\<rparr>]"

text \<open>The calibration points with the third insert factor set to zero.\<close>

definition calibration_zero_factor :: heap where
  "calibration_zero_factor = store_of
     [calibration_widths, calibration_ratios,
      vector [95 / 100, 97 / 100, 0, 1, 1003 / 1000, 1005 / 1000, 1006 / 1000, 1007 / 1000]]"

section \<open>Notions used in the proofs\<close>

text \<open>A computation that raises in every store.\<close>

definition fails :: "'a py \<Rightarrow> bool" where
  "fails m = (\<forall>h. isl (fst (m h)))"

text \<open>A computation that leaves every existing object as it is.\<close>

definition frame :: "'a py \<Rightarrow> bool" where
  "frame m = (\<forall>h. unchanged h (snd (m h)))"

text \<open>A computation whose result, when it returns one, is an array it has allocated.\<close>

definition fresh_result :: "val py \<Rightarrow> bool" where
  "fresh_result m = (\<forall>h v h'. m h = (Inr v, h') \<longrightarrow> (\<exists>p. v = Arr p \<and> lim h \<le> p))"

text \<open>
  Two runs side by side. A relation between the two stores is stable when it survives
  every step that leaves the existing objects alone; \<open>sim P m m' Q\<close> says that from
  stores related by \<open>P\<close> the two computations raise the same exception or return results
  related by \<open>Q\<close>.
\<close>

definition stable :: "(heap \<Rightarrow> heap \<Rightarrow> bool) \<Rightarrow> bool" where
  "stable P = (\<forall>h h' h1 h1'. P h h' \<and> unchanged h h1 \<and> unchanged h' h1' \<longrightarrow> P h1 h1')"

definition rel_out ::
  "('a \<Rightarrow> 'b \<Rightarrow> heap \<Rightarrow> heap \<Rightarrow> bool) \<Rightarrow> (error + 'a) \<times> heap \<Rightarrow> (error + 'b) \<times> heap \<Rightarrow> bool" where
  "rel_out Q r r' =
     (case (fst r, fst r') of
        (Inl e, Inl e') \<Rightarrow> e = e'
      | (Inr x, Inr x') \<Rightarrow> Q x x' (snd r) (snd r')
      | _ \<Rightarrow> False)"

definition sim ::
  "(heap \<Rightarrow> heap \<Rightarrow> bool) \<Rightarrow> 'a py \<Rightarrow> 'b py \<Rightarrow> ('a \<Rightarrow> 'b \<Rightarrow> heap \<Rightarrow> heap \<Rightarrow> bool) \<Rightarrow> bool" where
  "sim P m m' Q = (\<forall>h h'. P h h' \<longrightarrow> rel_out Q (m h) (m' h'))"

abbreviation same :: "'a \<Rightarrow> 'a \<Rightarrow> heap \<Rightarrow> heap \<Rightarrow> bool" where
  "same \<equiv> (\<lambda>x x' h h'. x = x')"

abbreviation alike :: "val \<Rightarrow> val \<Rightarrow> heap \<Rightarrow> heap \<Rightarrow> bool" where
  "alike \<equiv> (\<lambda>v v' h h'. same_input h v h' v')"

definition gives :: "(heap \<Rightarrow> heap \<Rightarrow> bool) \<Rightarrow> val \<Rightarrow> val \<Rightarrow> bool" where
  "gives P v v' = (\<forall>h h'. P h h' \<longrightarrow> same_input h v h' v')"

named_theorems frame_intros
named_theorems stable_intros
named_theorems sim_intros

section \<open>Sequencing and failure\<close>

lemma bnd_ret [simp]: "bnd (ret x) f = f x"
  by (simp add: bnd_def ret_def)

lemma bnd_raise [simp]: "bnd (raise e) f = raise e"
  by (simp add: bnd_def raise_def)

lemma lift_simps [simp]: "lift (Inl e) = raise e" "lift (Inr x) = ret x"
  by (simp_all add: lift_def)

lemma bnd_cases:
  obtains (fail) e h1 where "m h = (Inl e, h1)" "bnd m f h = (Inl e, h1)"
        | (ok) x h1 where "m h = (Inr x, h1)" "bnd m f h = f x h1"
proof (cases "m h")
  case (Pair r h1)
  then show ?thesis
    by (cases r) (auto simp: bnd_def intro: fail ok)
qed

lemma fails_raise [simp]: "fails (raise e)"
  by (simp add: fails_def raise_def)

lemma fails_bnd_left: "fails m \<Longrightarrow> fails (bnd m f)"
  unfolding fails_def
proof
  fix h assume a: "\<forall>h. isl (fst (m h))"
  show "isl (fst (bnd m f h))"
  proof (cases rule: bnd_cases [of m h f])
    case (fail e h1)
    then show ?thesis by simp
  next
    case (ok x h1)
    with a [rule_format, of h] show ?thesis by simp
  qed
qed

lemma fails_bnd_right: "(\<And>x. fails (f x)) \<Longrightarrow> fails (bnd m f)"
  unfolding fails_def
proof
  fix h assume a: "\<And>x. \<forall>h. isl (fst (f x h))"
  show "isl (fst (bnd m f h))"
  proof (cases rule: bnd_cases [of m h f])
    case (fail e h1)
    then show ?thesis by simp
  next
    case (ok x h1)
    with a [of x] show ?thesis by simp
  qed
qed

lemma load_name_unbound: "map_of bound n = None \<Longrightarrow> load_name bound n = raise (NameError n)"
  by (simp add: load_name_def)

lemma single_fails: "fails (single_calculate_deformability L x_test y_test x_data y_data z_data)"
  unfolding single_calculate_deformability_def Let_def
  by (simp add: load_name_unbound case_prod_unfold) (intro fails_bnd_right fails_raise)

lemma calculate_deformability_fails: "fails (calculate_deformability L x_test y_test x_data y_data z_data)"
  unfolding calculate_deformability_def
  by (simp add: load_name_unbound) (intro fails_bnd_right fails_raise)

lemma gated_fails: "fails (spline_model_with_deformability L wt rt wd rd fd)"
  unfolding spline_model_with_deformability_def
  by (rule fails_bnd_left) (rule calculate_deformability_fails)

section \<open>Existing objects are left alone\<close>

lemma unchanged_refl [simp]: "unchanged h h"
  by (simp add: unchanged_def)

lemma unchanged_trans: "unchanged h h1 \<Longrightarrow> unchanged h1 h2 \<Longrightarrow> unchanged h h2"
  by (auto simp: unchanged_def)

lemma unchanged_contents: "unchanged h h' \<Longrightarrow> exists_in h v \<Longrightarrow> contents h' v = contents h v"
  by (cases v) (auto simp: unchanged_def exists_in_def contents_def)

lemma unchanged_exists: "unchanged h h' \<Longrightarrow> exists_in h v \<Longrightarrow> exists_in h' v"
  by (cases v) (auto simp: unchanged_def exists_in_def)

lemma frameD: "frame m \<Longrightarrow> unchanged h (snd (m h))"
  by (simp add: frame_def)

lemma frame_ret [frame_intros]: "frame (ret x)"
  by (simp add: frame_def ret_def)

lemma frame_raise [frame_intros]: "frame (raise e)"
  by (simp add: frame_def raise_def)

lemma frame_lift [frame_intros]: "frame (lift r)"
  by (cases r) (simp_all add: frame_intros)

lemma frame_get_contents [frame_intros]: "frame (get_contents v)"
  by (simp add: frame_def get_contents_def)

lemma frame_alloc [frame_intros]: "frame (alloc a)"
  by (simp add: frame_def alloc_def unchanged_def)

lemma frame_load_name [frame_intros]: "frame (load_name bound n)"
  by (simp add: load_name_def frame_intros split: option.splits)

lemma frame_bnd [frame_intros]:
  assumes "frame m" and "\<And>x. frame (f x)"
  shows "frame (bnd m f)"
  unfolding frame_def
proof
  fix h
  show "unchanged h (snd (bnd m f h))"
  proof (cases rule: bnd_cases [of m h f])
    case (fail e h1)
    with frameD [OF assms(1), of h] show ?thesis by simp
  next
    case (ok x h1)
    with frameD [OF assms(1), of h] frameD [OF assms(2), of h1 x] show ?thesis
      by (auto intro: unchanged_trans)
  qed
qed

lemma frame_if [frame_intros]: "frame m \<Longrightarrow> frame m' \<Longrightarrow> frame (if c then m else m')"
  by simp

lemma frame_comprehension [frame_intros]:
  "(\<And>x. frame (f x)) \<Longrightarrow> frame (comprehension f xs)"
  by (induction xs) (simp_all add: frame_intros)

lemma frame_np_shape [frame_intros]: "frame (np_shape v)"
  unfolding np_shape_def by (intro frame_intros)

lemma frame_py_len [frame_intros]: "frame (py_len v)"
  unfolding py_len_def by (auto intro!: frame_intros split: list.splits)

lemma frame_builtin_min [frame_intros]: "frame (builtin_min v)"
  unfolding builtin_min_def by (intro frame_intros)

lemma frame_builtin_max [frame_intros]: "frame (builtin_max v)"
  unfolding builtin_max_def by (intro frame_intros)

lemma frame_np_min [frame_intros]: "frame (np_min v)"
  unfolding np_min_def by (intro frame_intros)

lemma frame_np_max [frame_intros]: "frame (np_max v)"
  unfolding np_max_def by (intro frame_intros)

lemma frame_as_ndarray [frame_intros]: "frame (as_ndarray vs)"
  unfolding as_ndarray_def by (intro frame_intros)

lemma frame_np_min_of [frame_intros]: "frame (np_min_of vs)"
  unfolding np_min_of_def by (intro frame_intros)

lemma frame_np_max_of [frame_intros]: "frame (np_max_of vs)"
  unfolding np_max_of_def by (intro frame_intros)

lemma frame_np_array [frame_intros]: "frame (np_array vs)"
  unfolding np_array_def by (intro frame_intros)

lemma frame_np_array2 [frame_intros]: "frame (np_array2 rows)"
  unfolding np_array2_def by (intro frame_intros)

lemma frame_np_append [frame_intros]: "frame (np_append a v)"
  unfolding np_append_def by (intro frame_intros)

lemma frame_np_delete [frame_intros]: "frame (np_delete a i)"
  unfolding np_delete_def by (intro frame_intros)

lemma frame_getitem1 [frame_intros]: "frame (getitem1 v i)"
  unfolding getitem1_def by (auto intro!: frame_intros split: list.splits)

lemma frame_getitem2 [frame_intros]: "frame (getitem2 v i j)"
  unfolding getitem2_def by (auto intro!: frame_intros split: list.splits)

lemma frame_np_binop [frame_intros]: "frame (np_binop f x y)"
  unfolding np_binop_def by (intro frame_intros)

lemma frame_np_greater [frame_intros]: "frame (np_greater v c)"
  unfolding np_greater_def by (intro frame_intros)

lemma frame_SmoothBivariateSpline [frame_intros]: "frame (SmoothBivariateSpline L x y z bbox kx ky)"
  unfolding SmoothBivariateSpline_def by (intro frame_intros)

lemma frame_spline_ev [frame_intros]: "frame (spline_ev L s xi yi)"
  unfolding spline_ev_def by (intro frame_intros)

lemma frame_spline_model_bbox [frame_intros]: "frame (spline_model_bbox wt rt wd rd)"
  unfolding spline_model_bbox_def by (intro frame_intros)

lemma frame_spline_model [frame_intros]: "frame (spline_model L wt rt wd rd fd)"
  unfolding spline_model_def by (intro frame_intros)

lemma frame_single_bbox [frame_intros]: "frame (single_bbox x y xd yd)"
  unfolding single_bbox_def by (intro frame_intros)

lemma frame_single [frame_intros]: "frame (single_calculate_deformability L x y xd yd zd)"
  unfolding single_calculate_deformability_def Let_def case_prod_unfold by (intro frame_intros)

lemma frame_calculate_deformability [frame_intros]:
  "frame (calculate_deformability L x y xd yd zd)"
  unfolding calculate_deformability_def by (intro frame_intros)

lemma fresh_alloc: "fresh_result (alloc a)"
  by (auto simp: fresh_result_def alloc_def)

lemma fresh_bnd:
  assumes "frame m" and "\<And>x. fresh_result (f x)"
  shows "fresh_result (bnd m f)"
  unfolding fresh_result_def
proof (intro allI impI)
  fix h v h'
  assume r: "bnd m f h = (Inr v, h')"
  show "\<exists>p. v = Arr p \<and> lim h \<le> p"
  proof (cases rule: bnd_cases [of m h f])
    case (fail e h1)
    with r show ?thesis by simp
  next
    case (ok x h1)
    with r have "f x h1 = (Inr v, h')" by simp
    with assms(2) [of x] obtain p where "v = Arr p" "lim h1 \<le> p"
      by (auto simp: fresh_result_def)
    moreover from frameD [OF assms(1), of h] ok have "lim h \<le> lim h1"
      by (simp add: unchanged_def)
    ultimately show ?thesis by auto
  qed
qed

lemma fresh_spline_ev: "fresh_result (spline_ev L s xi yi)"
  unfolding spline_ev_def by (intro fresh_bnd fresh_alloc frame_intros)

lemma fresh_spline_model: "fresh_result (spline_model L wt rt wd rd fd)"
  unfolding spline_model_def by (intro fresh_bnd fresh_spline_ev frame_intros)

lemma setitem_mask_effect:
  "setitem_mask (Arr p) m c h = (r, h') \<Longrightarrow> lim h' = lim h \<and> (\<forall>q. q \<noteq> p \<longrightarrow> cells h' q = cells h q)"
  by (auto simp: setitem_mask_def Let_def split: if_splits)

lemma mask_invalid_effect:
  assumes "mask_invalid (Arr p) d h = (r, h')"
  shows "lim h' = lim h \<and> (\<forall>q. q \<noteq> p \<longrightarrow> cells h' q = cells h q)"
proof -
  from assms obtain m where "setitem_mask (Arr p) m NaN h = (r, h')"
    by (auto simp: mask_invalid_def np_greater_def bnd_def get_contents_def ret_def)
  then show ?thesis by (rule setitem_mask_effect)
qed

lemma mask_invalid_above:
  assumes "lim h0 \<le> p" "unchanged h0 h"
  shows "unchanged h0 (snd (mask_invalid (Arr p) d h))"
proof -
  obtain r h' where e: "mask_invalid (Arr p) d h = (r, h')" by (cases "mask_invalid (Arr p) d h")
  from mask_invalid_effect [OF e] assms show ?thesis
    by (auto simp: e unchanged_def)
qed

lemma frame_gated [frame_intros]: "frame (spline_model_with_deformability L wt rt wd rd fd)"
  unfolding frame_def
proof
  fix h
  let ?calc = "calculate_deformability L wt rt wd rd fd"
  let ?rest = "\<lambda>deformability. bnd (spline_model L wt rt wd rd fd) (\<lambda>model_factor.
     bnd (mask_invalid model_factor deformability) (\<lambda>_. ret model_factor))"
  have def: "spline_model_with_deformability L wt rt wd rd fd = bnd ?calc ?rest"
    by (simp add: spline_model_with_deformability_def)
  show "unchanged h (snd (spline_model_with_deformability L wt rt wd rd fd h))"
  proof (cases rule: bnd_cases [of ?calc h ?rest])
    case (fail e h1)
    with frameD [OF frame_calculate_deformability, of h L wt rt wd rd fd] show ?thesis
      by (simp add: def)
  next
    case (ok d h1)
    with frameD [OF frame_calculate_deformability, of h L wt rt wd rd fd]
    have u1: "unchanged h h1" by simp
    let ?sm = "spline_model L wt rt wd rd fd"
    let ?k = "\<lambda>model_factor. bnd (mask_invalid model_factor d) (\<lambda>_. ret model_factor)"
    have "unchanged h (snd (bnd ?sm ?k h1))"
    proof (cases rule: bnd_cases [of ?sm h1 ?k])
      case (fail e h2)
      with frameD [OF frame_spline_model, of h1 L wt rt wd rd fd] u1 show ?thesis
        by (auto intro: unchanged_trans)
    next
      case (ok mf h2)
      with frameD [OF frame_spline_model, of h1 L wt rt wd rd fd]
      have u2: "unchanged h1 h2" by simp
      from ok(1) fresh_spline_model [of L wt rt wd rd fd] obtain p
        where p: "mf = Arr p" "lim h1 \<le> p" by (auto simp: fresh_result_def)
      from u1 p have "lim h \<le> p" by (simp add: unchanged_def)
      from mask_invalid_above [OF this unchanged_trans [OF u1 u2], of d]
      have "unchanged h (snd (mask_invalid (Arr p) d h2))" .
      moreover have "snd (?k mf h2) = snd (mask_invalid (Arr p) d h2)"
        by (cases "mask_invalid (Arr p) d h2"; cases "fst (mask_invalid (Arr p) d h2)")
           (auto simp: bnd_def ret_def p)
      ultimately show ?thesis using ok by simp
    qed
    with ok show ?thesis by (simp add: def)
  qed
qed

lemma frame_percent [frame_intros]:
  "frame (calculate_percent_prediction_differences L wd rd fd)"
  unfolding calculate_percent_prediction_differences_def by (intro frame_intros)

section \<open>Two runs on the same data\<close>

lemma stable_const [stable_intros]: "stable (\<lambda>h h'. c)"
  by (simp add: stable_def)

lemma stable_alike [stable_intros]: "stable (alike v v')"
  by (auto simp: stable_def same_input_def unchanged_contents unchanged_exists)

lemma stable_conj [stable_intros]: "stable P \<Longrightarrow> stable Q \<Longrightarrow> stable (\<lambda>h h'. P h h' \<and> Q h h')"
  unfolding stable_def by blast

lemma simI: "(\<And>h h'. P h h' \<Longrightarrow> rel_out Q (m h) (m' h')) \<Longrightarrow> sim P m m' Q"
  by (simp add: sim_def)

lemma simD: "sim P m m' Q \<Longrightarrow> P h h' \<Longrightarrow> rel_out Q (m h) (m' h')"
  by (simp add: sim_def)

lemma rel_out_Inl [simp]: "rel_out Q (Inl e, h) (Inl e', h') = (e = e')"
  by (simp add: rel_out_def)

lemma rel_out_Inr [simp]: "rel_out Q (Inr x, h) (Inr x', h') = Q x x' h h'"
  by (simp add: rel_out_def)

lemma rel_out_mixed [simp]:
  "rel_out Q (Inl e, h) (Inr x', h') = False" "rel_out Q (Inr x, h) (Inl e', h') = False"
  by (simp_all add: rel_out_def)

lemma sim_weaken:
  "sim P m m' Q \<Longrightarrow> (\<And>h h'. P' h h' \<Longrightarrow> P h h') \<Longrightarrow>
   (\<And>x x' h h'. Q x x' h h' \<Longrightarrow> Q' x x' h h') \<Longrightarrow> sim P' m m' Q'"
  unfolding sim_def rel_out_def by (fastforce split: sum.splits)

lemma sim_bnd:
  assumes m: "sim P m m' R" and fr: "frame m" "frame m'" and st: "stable P"
    and f: "\<And>x x'. sim (\<lambda>h h'. P h h' \<and> R x x' h h') (f x) (f' x') Q"
  shows "sim P (bnd m f) (bnd m' f') Q"
proof (rule simI)
  fix h h' assume P: "P h h'"
  obtain r h1 where mh: "m h = (r, h1)" by (cases "m h")
  obtain r' h1' where mh': "m' h' = (r', h1')" by (cases "m' h'")
  from frameD [OF fr(1), of h] mh have u: "unchanged h h1" by simp
  from frameD [OF fr(2), of h'] mh' have u': "unchanged h' h1'" by simp
  from st P u u' have P1: "P h1 h1'" unfolding stable_def by blast
  from simD [OF m P] mh mh' have ro: "rel_out R (r, h1) (r', h1')" by simp
  show "rel_out Q (bnd m f h) (bnd m' f' h')"
  proof (cases r)
    case (Inl e)
    with ro obtain e' where "r' = Inl e'" "e = e'" by (cases r') auto
    with Inl mh mh' show ?thesis by (simp add: bnd_def)
  next
    case (Inr x)
    with ro obtain x' where r': "r' = Inr x'" and R: "R x x' h1 h1'" by (cases r') auto
    from simD [OF f [of x x'], of h1 h1'] P1 R have "rel_out Q (f x h1) (f' x' h1')" by simp
    with Inr r' mh mh' show ?thesis by (simp add: bnd_def)
  qed
qed

lemma sim_bnd_same:
  assumes m: "sim P m m' same" and fr: "frame m" "frame m'" and st: "stable P"
    and f: "\<And>x. sim P (f x) (f' x) Q"
  shows "sim P (bnd m f) (bnd m' f') Q"
proof (rule sim_bnd [OF m fr st])
  fix x x' :: 'a
  show "sim (\<lambda>h h'. P h h' \<and> x = x') (f x) (f' x') Q"
    using f [of x] by (auto simp: sim_def)
qed

lemma sim_bnd_fails:
  assumes m: "sim P m m' R" and fl: "fails m"
  shows "sim P (bnd m f) (bnd m' f') Q"
proof (rule simI)
  fix h h' assume P: "P h h'"
  from fl obtain e h1 where mh: "m h = (Inl e, h1)"
    unfolding fails_def by (metis isl_def prod.collapse)
  obtain r' h1' where mh': "m' h' = (r', h1')" by (cases "m' h'")
  from simD [OF m P] mh mh' have "r' = Inl e" by (cases r') auto
  with mh mh' show "rel_out Q (bnd m f h) (bnd m' f' h')" by (simp add: bnd_def)
qed

lemma sim_fails_any:
  assumes m: "sim P m m' R" and fl: "fails m"
  shows "sim P m m' Q"
proof (rule simI)
  fix h h' assume P: "P h h'"
  from fl obtain e h1 where mh: "m h = (Inl e, h1)"
    unfolding fails_def by (metis isl_def prod.collapse)
  obtain r' h1' where mh': "m' h' = (r', h1')" by (cases "m' h'")
  from simD [OF m P] mh mh' have "r' = Inl e" by (cases r') auto
  with mh mh' show "rel_out Q (m h) (m' h')" by simp
qed

lemma sim_ret: "(\<And>h h'. P h h' \<Longrightarrow> Q x x' h h') \<Longrightarrow> sim P (ret x) (ret x') Q"
  by (simp add: sim_def ret_def)

lemma sim_raise [sim_intros]: "sim P (raise e) (raise e) Q"
  by (simp add: sim_def raise_def)

lemma sim_lift [sim_intros]: "sim P (lift r) (lift r) same"
  by (cases r) (simp_all add: sim_raise sim_ret)

lemma sim_if:
  "(c \<Longrightarrow> sim P m m' Q) \<Longrightarrow> (\<not> c \<Longrightarrow> sim P n n' Q) \<Longrightarrow>
   sim P (if c then m else n) (if c then m' else n') Q"
  by simp

lemma sim_get_contents [sim_intros]:
  "(\<And>h h'. P h h' \<Longrightarrow> same_input h v h' v') \<Longrightarrow> sim P (get_contents v) (get_contents v') same"
  by (simp add: sim_def get_contents_def same_input_def)

lemma sim_alloc [sim_intros]: "sim P (alloc a) (alloc a) alike"
  by (simp add: sim_def alloc_def same_input_def exists_in_def contents_def)

lemma sim_load_name [sim_intros]:
  "map_of bound n = None \<Longrightarrow> map_of bound' n = None \<Longrightarrow> sim P (load_name bound n) (load_name bound' n) Q"
  by (simp add: load_name_unbound sim_raise)

lemma gives_Num [simp]: "gives P (Num x) (Num x)"
  by (simp add: gives_def same_input_def exists_in_def contents_def)

lemma sim_ret_Num [sim_intros]: "sim P (ret (Num x)) (ret (Num x)) alike"
  by (rule sim_ret) (simp add: same_input_def exists_in_def contents_def)

lemma sim_ret_same [sim_intros]: "sim P (ret x) (ret x) same"
  by (rule sim_ret) simp

lemma sim_read:
  assumes "gives P v v'" "stable P" "\<And>a. sim P (k a) (k' a) Q"
  shows "sim P (bnd (get_contents v) k) (bnd (get_contents v') k') Q"
  by (rule sim_bnd_same [OF sim_get_contents frame_get_contents frame_get_contents assms(2) assms(3)])
     (use assms(1) in \<open>simp add: gives_def\<close>)

lemma sim_np_shape: "gives P v v' \<Longrightarrow> stable P \<Longrightarrow> sim P (np_shape v) (np_shape v') same"
  unfolding np_shape_def by (rule sim_read) (simp_all add: sim_intros)

lemma sim_py_len: "gives P v v' \<Longrightarrow> stable P \<Longrightarrow> sim P (py_len v) (py_len v') same"
  unfolding py_len_def by (rule sim_read) (auto intro: sim_intros split: list.splits)

lemma sim_builtin_min: "gives P v v' \<Longrightarrow> stable P \<Longrightarrow> sim P (builtin_min v) (builtin_min v') same"
  unfolding builtin_min_def by (rule sim_read) (simp_all add: sim_intros)

lemma sim_builtin_max: "gives P v v' \<Longrightarrow> stable P \<Longrightarrow> sim P (builtin_max v) (builtin_max v') same"
  unfolding builtin_max_def by (rule sim_read) (simp_all add: sim_intros)

lemma sim_np_min: "gives P v v' \<Longrightarrow> stable P \<Longrightarrow> sim P (np_min v) (np_min v') same"
  unfolding np_min_def by (rule sim_read) (simp_all add: sim_intros)

lemma sim_np_max: "gives P v v' \<Longrightarrow> stable P \<Longrightarrow> sim P (np_max v) (np_max v') same"
  unfolding np_max_def by (rule sim_read) (simp_all add: sim_intros)

lemma sim_read_all:
  "list_all2 (gives P) vs vs' \<Longrightarrow> stable P \<Longrightarrow>
   sim P (comprehension get_contents vs) (comprehension get_contents vs') same"
proof (induction vs vs' rule: list_all2_induct)
  case Nil
  then show ?case by (simp add: sim_intros)
next
  case (Cons v vs v' vs')
  show ?case
    unfolding comprehension.simps
    by (rule sim_read [OF Cons(1) Cons(4)])
       (rule sim_bnd_same [OF Cons(3) [OF Cons(4)] frame_comprehension frame_comprehension Cons(4)],
        simp_all add: frame_intros sim_intros)
qed

lemma sim_as_ndarray:
  "list_all2 (gives P) vs vs' \<Longrightarrow> stable P \<Longrightarrow> sim P (as_ndarray vs) (as_ndarray vs') same"
  unfolding as_ndarray_def
  by (rule sim_bnd_same [OF sim_read_all]) (simp_all add: frame_intros sim_intros)

lemma sim_np_min_of:
  "list_all2 (gives P) vs vs' \<Longrightarrow> stable P \<Longrightarrow> sim P (np_min_of vs) (np_min_of vs') same"
  unfolding np_min_of_def
  by (rule sim_bnd_same [OF sim_as_ndarray]) (simp_all add: frame_intros sim_intros)

lemma sim_np_max_of:
  "list_all2 (gives P) vs vs' \<Longrightarrow> stable P \<Longrightarrow> sim P (np_max_of vs) (np_max_of vs') same"
  unfolding np_max_of_def
  by (rule sim_bnd_same [OF sim_as_ndarray]) (simp_all add: frame_intros sim_intros)

lemma sim_np_array:
  "list_all2 (gives P) vs vs' \<Longrightarrow> stable P \<Longrightarrow> sim P (np_array vs) (np_array vs') alike"
  unfolding np_array_def
  by (rule sim_bnd_same [OF sim_as_ndarray]) (simp_all add: frame_intros sim_intros)

lemma sim_as_ndarray_all:
  "list_all2 (list_all2 (gives P)) rows rows' \<Longrightarrow> stable P \<Longrightarrow>
   sim P (comprehension as_ndarray rows) (comprehension as_ndarray rows') same"
proof (induction rows rows' rule: list_all2_induct)
  case Nil
  then show ?case by (simp add: sim_intros)
next
  case (Cons r rows r' rows')
  show ?case
    unfolding comprehension.simps
    by (rule sim_bnd_same [OF sim_as_ndarray [OF Cons(1) Cons(4)] frame_as_ndarray frame_as_ndarray Cons(4)])
       (rule sim_bnd_same [OF Cons(3) [OF Cons(4)] frame_comprehension frame_comprehension Cons(4)],
        simp_all add: frame_intros sim_intros)
qed

lemma sim_np_array2:
  "list_all2 (list_all2 (gives P)) rows rows' \<Longrightarrow> stable P \<Longrightarrow>
   sim P (np_array2 rows) (np_array2 rows') alike"
  unfolding np_array2_def
  by (rule sim_bnd_same [OF sim_as_ndarray_all])
     (auto intro!: frame_intros sim_intros sim_bnd_same)

lemma sim_np_append:
  "gives P a a' \<Longrightarrow> gives P v v' \<Longrightarrow> stable P \<Longrightarrow> sim P (np_append a v) (np_append a' v') alike"
  unfolding np_append_def
  by (intro sim_read sim_alloc)

lemma sim_np_delete:
  "gives P a a' \<Longrightarrow> stable P \<Longrightarrow> sim P (np_delete a i) (np_delete a' i) alike"
  unfolding np_delete_def
  by (rule sim_read) (auto intro: sim_intros)

lemma sim_getitem1:
  "gives P v v' \<Longrightarrow> stable P \<Longrightarrow> sim P (getitem1 v i) (getitem1 v' i) alike"
  unfolding getitem1_def
  by (rule sim_read) (auto intro: sim_intros split: list.splits)

lemma sim_getitem2:
  "gives P v v' \<Longrightarrow> stable P \<Longrightarrow> sim P (getitem2 v i j) (getitem2 v' i j) alike"
  unfolding getitem2_def
  by (rule sim_read) (auto intro: sim_intros split: list.splits)

lemma sim_np_binop:
  "gives P x x' \<Longrightarrow> gives P y y' \<Longrightarrow> stable P \<Longrightarrow> sim P (np_binop f x y) (np_binop f x' y') alike"
  unfolding np_binop_def
  by (intro sim_read sim_bnd_same [OF sim_lift]) (auto intro: sim_intros frame_intros)

lemma sim_np_greater:
  "gives P v v' \<Longrightarrow> stable P \<Longrightarrow> sim P (np_greater v c) (np_greater v' c) same"
  unfolding np_greater_def by (rule sim_read) (simp_all add: sim_intros)

lemma sim_SmoothBivariateSpline:
  "gives P x x' \<Longrightarrow> gives P y y' \<Longrightarrow> gives P z z' \<Longrightarrow> stable P \<Longrightarrow>
   sim P (SmoothBivariateSpline L x y z bbox kx ky) (SmoothBivariateSpline L x' y' z' bbox kx ky) same"
  unfolding SmoothBivariateSpline_def
  by (intro sim_read sim_lift)

lemma sim_spline_ev:
  "gives P x x' \<Longrightarrow> gives P y y' \<Longrightarrow> stable P \<Longrightarrow>
   sim P (spline_ev L s x y) (spline_ev L s x' y') alike"
  unfolding spline_ev_def
  by (intro sim_read sim_bnd_same [OF sim_lift]) (auto intro: sim_intros frame_intros)

lemma sim_assume:
  assumes "\<And>h h'. P h h' \<Longrightarrow> c" and "c \<Longrightarrow> sim P m m' Q"
  shows "sim P m m' Q"
proof (cases "\<exists>h h'. P h h'")
  case True
  with assms show ?thesis by blast
next
  case False
  then show ?thesis by (simp add: sim_def)
qed

lemma stable_list_all2 [stable_intros]:
  "(\<And>x x'. stable (R x x')) \<Longrightarrow> stable (\<lambda>h h'. list_all2 (\<lambda>y y'. R y y' h h') ys ys')"
  unfolding stable_def list_all2_conv_all_nth by blast

lemma sim_comprehension:
  assumes fr: "\<And>x. frame (f x)" "\<And>x. frame (f' x)"
    and R: "\<And>x x'. stable (R x x')"
    and f: "\<And>x. sim P (f x) (f' x) R"
  shows "stable P \<Longrightarrow>
    sim P (comprehension f xs) (comprehension f' xs) (\<lambda>ys ys' h h'. list_all2 (\<lambda>y y'. R y y' h h') ys ys')"
  using f
proof (induction xs arbitrary: P)
  case Nil
  show ?case by (simp add: sim_ret)
next
  case (Cons x xs)
  show ?case
    unfolding comprehension.simps
  proof (rule sim_bnd [OF Cons(3) fr Cons(2)])
    fix y y'
    let ?P = "\<lambda>h h'. P h h' \<and> R y y' h h'"
    have st: "stable ?P" using Cons(2) R by (intro stable_intros)
    have "sim ?P (comprehension f xs) (comprehension f' xs)
            (\<lambda>ys ys' h h'. list_all2 (\<lambda>y y'. R y y' h h') ys ys')"
      by (rule Cons(1) [OF st]) (rule sim_weaken [OF Cons(3)], simp_all)
    then show "sim ?P (bnd (comprehension f xs) (\<lambda>ys. ret (y # ys)))
            (bnd (comprehension f' xs) (\<lambda>ys. ret (y' # ys)))
            (\<lambda>ys ys' h h'. list_all2 (\<lambda>y y'. R y y' h h') ys ys')"
      by (rule sim_bnd [OF _ frame_comprehension frame_comprehension st])
         (auto intro!: fr sim_ret)
  qed
qed

lemma gives_list:
  "length ys = length ys' \<Longrightarrow>
   list_all2 (gives (\<lambda>h h'. P h h' \<and> list_all2 (\<lambda>y y'. same_input h y h' y') ys ys')) ys ys'"
  by (auto simp: list_all2_conv_all_nth gives_def)

lemma sim_spline_model_bbox:
  assumes "gives P wt wt'" "gives P rt rt'" "gives P wd wd'" "gives P rd rd'" "stable P"
  shows "sim P (spline_model_bbox wt rt wd rd) (spline_model_bbox wt' rt' wd' rd') same"
  unfolding spline_model_bbox_def
  by (intro sim_bnd_same sim_np_min sim_np_max sim_np_min_of sim_np_max_of sim_ret_same
        frame_intros assms) simp_all

lemma sim_spline_model:
  assumes "gives P wt wt'" "gives P rt rt'" "gives P wd wd'" "gives P rd rd'" "gives P fd fd'"
    "stable P"
  shows "sim P (spline_model L wt rt wd rd fd) (spline_model L wt' rt' wd' rd' fd') alike"
  unfolding spline_model_def
  by (intro sim_bnd_same sim_spline_model_bbox sim_SmoothBivariateSpline sim_spline_ev
        frame_intros assms)

lemma gives_weaken: "gives P v v' \<Longrightarrow> (\<And>h h'. P' h h' \<Longrightarrow> P h h') \<Longrightarrow> gives P' v v'"
  by (simp add: gives_def)

lemma gives_here: "gives (\<lambda>h h'. P h h' \<and> same_input h v h' v') v v'"
  by (simp add: gives_def)

lemma gives_left: "gives P v v' \<Longrightarrow> gives (\<lambda>h h'. P h h' \<and> Q h h') v v'"
  by (simp add: gives_def)

lemma sim_SmoothBivariateSpline_box:
  assumes "gives P x x'" "gives P y y'" "gives P z z'" "stable P"
    and "\<And>h h'. P h h' \<Longrightarrow> bbox = bbox'"
  shows "sim P (SmoothBivariateSpline L x y z bbox kx ky)
               (SmoothBivariateSpline L x' y' z' bbox' kx ky) same"
proof (rule sim_assume [of P "bbox = bbox'"])
  assume "bbox = bbox'"
  with assms(1-4) show ?thesis by (simp add: sim_SmoothBivariateSpline)
qed (rule assms(5))

lemma sim_single_bbox:
  assumes g: "gives P x x'" "gives P y y'" "gives P xd xd'" "gives P yd yd'" and st: "stable P"
  shows "sim P (single_bbox x y xd yd) (single_bbox x' y' xd' yd')
           (\<lambda>t t' h h'. same_input h (fst t) h' (fst t')
              \<and> same_input h (fst (snd t)) h' (fst (snd t')) \<and> snd (snd t) = snd (snd t'))"
  unfolding single_bbox_def
proof (rule sim_bnd [OF sim_np_append [OF g(3) g(1) st] frame_np_append frame_np_append st])
  fix ax ax'
  let ?P1 = "\<lambda>h h'. P h h' \<and> same_input h ax h' ax'"
  have st1: "stable ?P1" by (intro stable_intros st)
  have gy: "gives ?P1 yd yd'" "gives ?P1 y y'" using g by (auto intro: gives_left)
  show "sim ?P1
          (bnd (np_append yd y) (\<lambda>ay. bnd (builtin_min ax) (\<lambda>x0. bnd (builtin_max ax) (\<lambda>x1.
           bnd (builtin_min ay) (\<lambda>y0. bnd (builtin_max ay) (\<lambda>y1. ret (ax, ay, x0, x1, y0, y1)))))))
          (bnd (np_append yd' y') (\<lambda>ay. bnd (builtin_min ax') (\<lambda>x0. bnd (builtin_max ax') (\<lambda>x1.
           bnd (builtin_min ay) (\<lambda>y0. bnd (builtin_max ay) (\<lambda>y1. ret (ax', ay, x0, x1, y0, y1)))))))
          (\<lambda>t t' h h'. same_input h (fst t) h' (fst t')
              \<and> same_input h (fst (snd t)) h' (fst (snd t')) \<and> snd (snd t) = snd (snd t'))"
  proof (rule sim_bnd [OF sim_np_append [OF gy st1] frame_np_append frame_np_append st1])
    fix ay ay'
    let ?P2 = "\<lambda>h h'. ?P1 h h' \<and> same_input h ay h' ay'"
    have st2: "stable ?P2" by (intro stable_intros st)
    have gx: "gives ?P2 ax ax'" "gives ?P2 ay ay'" by (simp_all add: gives_def)
    show "sim ?P2
          (bnd (builtin_min ax) (\<lambda>x0. bnd (builtin_max ax) (\<lambda>x1.
           bnd (builtin_min ay) (\<lambda>y0. bnd (builtin_max ay) (\<lambda>y1. ret (ax, ay, x0, x1, y0, y1))))))
          (bnd (builtin_min ax') (\<lambda>x0. bnd (builtin_max ax') (\<lambda>x1.
           bnd (builtin_min ay') (\<lambda>y0. bnd (builtin_max ay') (\<lambda>y1. ret (ax', ay', x0, x1, y0, y1))))))
          (\<lambda>t t' h h'. same_input h (fst t) h' (fst t')
              \<and> same_input h (fst (snd t)) h' (fst (snd t')) \<and> snd (snd t) = snd (snd t'))"
      by (intro sim_bnd_same sim_builtin_min sim_builtin_max frame_intros gx st2 sim_ret) simp
  qed
qed

lemma sim_single:
  assumes g: "gives P x x'" "gives P y y'" "gives P xd xd'" "gives P yd yd'" "gives P zd zd'"
    and st: "stable P"
  shows "sim P (single_calculate_deformability L x y xd yd zd)
               (single_calculate_deformability L x' y' xd' yd' zd') Q"
proof -
  let ?k = "\<lambda>x y xd yd zd (t :: val \<times> val \<times> fl \<times> fl \<times> fl \<times> fl).
      bnd (SmoothBivariateSpline L xd yd zd (Some (snd (snd t))) 2 1) (\<lambda>spline.
      bnd (spline_ev L spline x y) (\<lambda>initial_model. raise (NameError ''initial_fit'') :: val py))"
  have eq: "single_calculate_deformability L x y xd yd zd = bnd (single_bbox x y xd yd) (?k x y xd yd zd)"
    for x y xd yd zd
    by (simp add: single_calculate_deformability_def Let_def load_name_unbound case_prod_unfold)
  show ?thesis
    unfolding eq
  proof (rule sim_bnd [OF sim_single_bbox [OF g(1-4) st] frame_single_bbox frame_single_bbox st])
    fix t t' :: "val \<times> val \<times> fl \<times> fl \<times> fl \<times> fl"
    let ?P1 = "\<lambda>h h'. P h h' \<and> same_input h (fst t) h' (fst t')
              \<and> same_input h (fst (snd t)) h' (fst (snd t')) \<and> snd (snd t) = snd (snd t')"
    have st1: "stable ?P1" by (intro stable_intros st)
    have g1: "gives ?P1 x x'" "gives ?P1 y y'" "gives ?P1 xd xd'" "gives ?P1 yd yd'" "gives ?P1 zd zd'"
      using g by (auto intro: gives_left)
    show "sim ?P1 (?k x y xd yd zd t) (?k x' y' xd' yd' zd' t') Q"
      by (intro sim_bnd_same [OF sim_SmoothBivariateSpline_box] sim_bnd [OF sim_spline_ev]
            sim_raise frame_intros g1 st1) simp
  qed
qed

lemma gives_list2:
  "list_all2 (\<lambda>r r'. length r = length r') rows rows' \<Longrightarrow>
   list_all2 (list_all2 (gives (\<lambda>h h'. P h h' \<and>
      list_all2 (\<lambda>r r'. list_all2 (\<lambda>y y'. same_input h y h' y') r r') rows rows'))) rows rows'"
  by (auto simp: list_all2_conv_all_nth gives_def)

lemma sim_np_array_results:
  assumes st: "stable P"
  shows "sim (\<lambda>h h'. P h h' \<and> list_all2 (\<lambda>y y'. same_input h y h' y') ys ys')
           (np_array ys) (np_array ys') alike"
    (is "sim ?P _ _ _")
proof (rule sim_assume [of ?P "length ys = length ys'"])
  show "length ys = length ys'" if "?P h h'" for h h'
    using that by (auto dest: list_all2_lengthD)
  assume "length ys = length ys'"
  from gives_list [OF this] show ?thesis
    by (rule sim_np_array) (intro stable_intros st)
qed

lemma sim_np_array2_results:
  assumes st: "stable P"
  shows "sim (\<lambda>h h'. P h h' \<and>
            list_all2 (\<lambda>r r'. list_all2 (\<lambda>y y'. same_input h y h' y') r r') rows rows')
           (np_array2 rows) (np_array2 rows') alike"
    (is "sim ?P _ _ _")
proof (rule sim_assume [of ?P "list_all2 (\<lambda>r r'. length r = length r') rows rows'"])
  show "list_all2 (\<lambda>r r'. length r = length r') rows rows'" if "?P h h'" for h h'
    using that by (auto simp: list_all2_conv_all_nth)
  assume "list_all2 (\<lambda>r r'. length r = length r') rows rows'"
  from gives_list2 [OF this] show ?thesis
    by (rule sim_np_array2) (intro stable_intros st)
qed

lemma sim_cell1:
  assumes g: "gives P x x'" "gives P y y'" "gives P xd xd'" "gives P yd yd'" "gives P zd zd'"
    and st: "stable P"
  shows "sim P
    (bnd (getitem1 x i) (\<lambda>a. bnd (getitem1 y i) (\<lambda>b. single_calculate_deformability L a b xd yd zd)))
    (bnd (getitem1 x' i) (\<lambda>a. bnd (getitem1 y' i) (\<lambda>b. single_calculate_deformability L a b xd' yd' zd')))
    Q"
proof (rule sim_bnd [OF sim_getitem1 [OF g(1) st] frame_getitem1 frame_getitem1 st])
  fix a a'
  let ?P1 = "\<lambda>h h'. P h h' \<and> same_input h a h' a'"
  have st1: "stable ?P1" by (intro stable_intros st)
  show "sim ?P1 (bnd (getitem1 y i) (\<lambda>b. single_calculate_deformability L a b xd yd zd))
                (bnd (getitem1 y' i) (\<lambda>b. single_calculate_deformability L a' b xd' yd' zd')) Q"
  proof (rule sim_bnd [OF sim_getitem1 [OF gives_left [OF g(2)] st1] frame_getitem1 frame_getitem1 st1])
    fix b b'
    let ?P2 = "\<lambda>h h'. ?P1 h h' \<and> same_input h b h' b'"
    have st2: "stable ?P2" by (intro stable_intros st)
    show "sim ?P2 (single_calculate_deformability L a b xd yd zd)
                  (single_calculate_deformability L a' b' xd' yd' zd') Q"
      by (rule sim_single [OF _ _ _ _ _ st2]) (use g in \<open>auto simp: gives_def\<close>)
  qed
qed

lemma sim_cell2:
  assumes g: "gives P x x'" "gives P y y'" "gives P xd xd'" "gives P yd yd'" "gives P zd zd'"
    and st: "stable P"
  shows "sim P
    (bnd (getitem2 x i j) (\<lambda>a. bnd (getitem2 y i j) (\<lambda>b. single_calculate_deformability L a b xd yd zd)))
    (bnd (getitem2 x' i j) (\<lambda>a. bnd (getitem2 y' i j) (\<lambda>b. single_calculate_deformability L a b xd' yd' zd')))
    Q"
proof (rule sim_bnd [OF sim_getitem2 [OF g(1) st] frame_getitem2 frame_getitem2 st])
  fix a a'
  let ?P1 = "\<lambda>h h'. P h h' \<and> same_input h a h' a'"
  have st1: "stable ?P1" by (intro stable_intros st)
  show "sim ?P1 (bnd (getitem2 y i j) (\<lambda>b. single_calculate_deformability L a b xd yd zd))
                (bnd (getitem2 y' i j) (\<lambda>b. single_calculate_deformability L a' b xd' yd' zd')) Q"
  proof (rule sim_bnd [OF sim_getitem2 [OF gives_left [OF g(2)] st1] frame_getitem2 frame_getitem2 st1])
    fix b b'
    let ?P2 = "\<lambda>h h'. ?P1 h h' \<and> same_input h b h' b'"
    have st2: "stable ?P2" by (intro stable_intros st)
    show "sim ?P2 (single_calculate_deformability L a b xd yd zd)
                  (single_calculate_deformability L a' b' xd' yd' zd') Q"
      by (rule sim_single [OF _ _ _ _ _ st2]) (use g in \<open>auto simp: gives_def\<close>)
  qed
qed

lemma sim_calculate_deformability:
  assumes g: "gives P x x'" "gives P y y'" "gives P xd xd'" "gives P yd yd'" "gives P zd zd'"
    and st: "stable P"
  shows "sim P (calculate_deformability L x y xd yd zd)
               (calculate_deformability L x' y' xd' yd' zd') Q"
proof -
  let ?branch = "\<lambda>x y xd yd zd (dim :: nat list).
     if length dim = 0 then single_calculate_deformability L x y xd yd zd
     else if length dim = 1 then
       bnd (comprehension
              (\<lambda>i. bnd (getitem1 x i) (\<lambda>a. bnd (getitem1 y i) (\<lambda>b.
                     single_calculate_deformability L a b xd yd zd)))
              [0..<dim ! 0])
         np_array
     else
       bnd (comprehension
              (\<lambda>j. comprehension
                     (\<lambda>i. bnd (getitem2 x i j) (\<lambda>a. bnd (getitem2 y i j) (\<lambda>b.
                            single_calculate_deformability L a b xd yd zd)))
                     [0..<dim ! 0])
              [0..<dim ! 1])
         np_array2"
  let ?tail = "\<lambda>d. bnd (np_shape d) (\<lambda>s. raise (NameError ''dims'') :: val py)"
  have eq: "calculate_deformability L x y xd yd zd =
      bnd (np_shape x) (\<lambda>dim. bnd (?branch x y xd yd zd dim) ?tail)" for x y xd yd zd
    by (simp add: calculate_deformability_def load_name_unbound)
  have branch: "sim P (?branch x y xd yd zd dim) (?branch x' y' xd' yd' zd' dim) alike" for dim
  proof -
    have one: "sim P
        (bnd (comprehension
              (\<lambda>i. bnd (getitem1 x i) (\<lambda>a. bnd (getitem1 y i) (\<lambda>b.
                     single_calculate_deformability L a b xd yd zd))) [0..<dim ! 0]) np_array)
        (bnd (comprehension
              (\<lambda>i. bnd (getitem1 x' i) (\<lambda>a. bnd (getitem1 y' i) (\<lambda>b.
                     single_calculate_deformability L a b xd' yd' zd'))) [0..<dim ! 0]) np_array)
        alike"
      by (rule sim_bnd [OF sim_comprehension [where R = alike, OF _ _ _ sim_cell1 [OF g st] st]])
         (auto intro!: frame_intros stable_intros st sim_np_array_results)
    have two: "sim P
        (bnd (comprehension
              (\<lambda>j. comprehension
                     (\<lambda>i. bnd (getitem2 x i j) (\<lambda>a. bnd (getitem2 y i j) (\<lambda>b.
                            single_calculate_deformability L a b xd yd zd)))
                     [0..<dim ! 0]) [0..<dim ! 1]) np_array2)
        (bnd (comprehension
              (\<lambda>j. comprehension
                     (\<lambda>i. bnd (getitem2 x' i j) (\<lambda>a. bnd (getitem2 y' i j) (\<lambda>b.
                            single_calculate_deformability L a b xd' yd' zd')))
                     [0..<dim ! 0]) [0..<dim ! 1]) np_array2)
        alike"
      by (rule sim_bnd [OF sim_comprehension
              [where R = "\<lambda>r r' h h'. list_all2 (\<lambda>y y'. same_input h y h' y') r r'",
               OF _ _ _ sim_comprehension [where R = alike, OF _ _ _ sim_cell2 [OF g st] st] st]])
         (auto intro!: frame_intros stable_intros st sim_np_array2_results)
    show ?thesis
      using one two sim_single [OF g st, of L alike] by simp
  qed
  show ?thesis
    unfolding eq
  proof (rule sim_bnd_same [OF sim_np_shape [OF g(1) st] frame_np_shape frame_np_shape st])
    fix dim
    show "sim P (bnd (?branch x y xd yd zd dim) ?tail) (bnd (?branch x' y' xd' yd' zd' dim) ?tail) Q"
    proof (rule sim_bnd [OF branch _ _ st])
      fix d d'
      let ?P1 = "\<lambda>h h'. P h h' \<and> same_input h d h' d'"
      have st1: "stable ?P1" by (intro stable_intros st)
      show "sim ?P1 (?tail d) (?tail d') Q"
        by (intro sim_bnd_same [OF sim_np_shape] gives_here st1 frame_intros sim_raise)
    qed (intro frame_intros)+
  qed
qed

lemma sim_gated:
  assumes g: "gives P x x'" "gives P y y'" "gives P xd xd'" "gives P yd yd'" "gives P zd zd'"
    and st: "stable P"
  shows "sim P (spline_model_with_deformability L x y xd yd zd)
               (spline_model_with_deformability L x' y' xd' yd' zd') Q"
  unfolding spline_model_with_deformability_def
  by (rule sim_bnd_fails [OF sim_calculate_deformability [OF g st] calculate_deformability_fails])

lemma same_input_Num [simp]: "same_input h (Num x) h' (Num x)"
  by (simp add: same_input_def exists_in_def contents_def)

lemma sim_fold:
  assumes g: "gives P wd wd'" "gives P rd rd'" "gives P fd fd'" and st: "stable P"
  shows "sim P
     (bnd (getitem1 wd i) (\<lambda>width_test.
      bnd (getitem1 rd i) (\<lambda>ratio_perim_area_test.
      bnd (np_delete wd i) (\<lambda>widths.
      bnd (np_delete rd i) (\<lambda>ratios.
      bnd (np_delete fd i) (\<lambda>factors.
      spline_model_with_deformability L width_test ratio_perim_area_test widths ratios factors))))))
     (bnd (getitem1 wd' i) (\<lambda>width_test.
      bnd (getitem1 rd' i) (\<lambda>ratio_perim_area_test.
      bnd (np_delete wd' i) (\<lambda>widths.
      bnd (np_delete rd' i) (\<lambda>ratios.
      bnd (np_delete fd' i) (\<lambda>factors.
      spline_model_with_deformability L width_test ratio_perim_area_test widths ratios factors))))))
     Q"
  by (intro sim_bnd [OF sim_getitem1] sim_bnd [OF sim_np_delete] sim_gated
        frame_intros stable_intros st)
     (use g in \<open>auto simp: gives_def\<close>)

lemma sim_percent:
  assumes g: "gives P wd wd'" "gives P rd rd'" "gives P fd fd'" and st: "stable P"
  shows "sim P (calculate_percent_prediction_differences L wd rd fd)
               (calculate_percent_prediction_differences L wd' rd' fd') alike"
  unfolding calculate_percent_prediction_differences_def
  by (intro sim_bnd_same [OF sim_py_len]
        sim_bnd [OF sim_comprehension [where R = alike, OF _ _ _ sim_fold]]
        sim_bnd [OF sim_np_array_results] sim_bnd [OF sim_np_binop] sim_np_binop
        frame_intros stable_intros st g)
     (use g in \<open>auto simp: gives_def\<close>)

lemma rel_out_outcome: "rel_out alike r r' \<Longrightarrow> outcome r = outcome r'"
  by (cases r; cases r'; cases "fst r"; cases "fst r'")
     (auto simp: outcome_def same_input_def)

lemma sim_outcome: "sim P m m' alike \<Longrightarrow> P h h' \<Longrightarrow> outcome (m h) = outcome (m' h')"
  by (rule rel_out_outcome) (rule simD)

lemma calibration_inputs:
  "same_input calibration (Arr 0) calibration_later (Arr 1)"
  "same_input calibration (Arr 1) calibration_later (Arr 2)"
  "same_input calibration (Arr 2) calibration_later (Arr 3)"
  by (simp_all add: same_input_def exists_in_def contents_def calibration_def
        calibration_later_def store_of_def)

section \<open>The bounding box\<close>

lemma fl_less_trans: "fl_less a b \<Longrightarrow> fl_less b c \<Longrightarrow> fl_less a c"
  by (cases a; cases b; cases c) auto

lemma fl_less_total: "a \<noteq> NaN \<Longrightarrow> b \<noteq> NaN \<Longrightarrow> fl_less a b \<or> a = b \<or> fl_less b a"
  by (cases a; cases b) auto

lemma fl_le_refl [simp]: "fl_le a a"
  by (simp add: fl_le_def)

lemma fl_le_trans: "fl_le a b \<Longrightarrow> fl_le b c \<Longrightarrow> fl_le a c"
  by (auto simp: fl_le_def intro: fl_less_trans)

lemma fl_le_total: "a \<noteq> NaN \<Longrightarrow> b \<noteq> NaN \<Longrightarrow> fl_less a b \<or> fl_le b a"
  using fl_less_total [of a b] by (auto simp: fl_le_def)

lemma fold_min_least:
  "NaN \<notin> set (x # r) \<Longrightarrow>
   lower_end (set (x # r)) (fold (\<lambda>y m. if fl_less y m then y else m) r x)"
proof (induction r arbitrary: x)
  case Nil
  then show ?case by (simp add: lower_end_def)
next
  case (Cons y r)
  let ?s = "if fl_less y x then y else x"
  from Cons.prems have n: "NaN \<notin> set (?s # r)" by auto
  from Cons.IH [OF n] have le: "lower_end (set (?s # r)) (fold (\<lambda>y m. if fl_less y m then y else m) r ?s)" .
  from Cons.prems have "x \<noteq> NaN" "y \<noteq> NaN" by auto
  then have s: "fl_le ?s x" "fl_le ?s y"
    using fl_le_total [of y x] by (auto simp: fl_le_def)
  from le s show ?case
    unfolding lower_end_def by (auto intro: fl_le_trans split: if_splits)
qed

lemma fold_max_greatest:
  "NaN \<notin> set (x # r) \<Longrightarrow>
   upper_end (set (x # r)) (fold (\<lambda>y m. if fl_less m y then y else m) r x)"
proof (induction r arbitrary: x)
  case Nil
  then show ?case by (simp add: upper_end_def)
next
  case (Cons y r)
  let ?s = "if fl_less x y then y else x"
  from Cons.prems have n: "NaN \<notin> set (?s # r)" by auto
  from Cons.IH [OF n] have le: "upper_end (set (?s # r)) (fold (\<lambda>y m. if fl_less m y then y else m) r ?s)" .
  from Cons.prems have "x \<noteq> NaN" "y \<noteq> NaN" by auto
  then have s: "fl_le x ?s" "fl_le y ?s"
    using fl_le_total [of x y] by (auto simp: fl_le_def)
  from le s show ?case
    unfolding upper_end_def by (auto intro: fl_le_trans split: if_splits)
qed

lemma py_min_list_least:
  "xs \<noteq> [] \<Longrightarrow> NaN \<notin> set xs \<Longrightarrow> \<exists>m. py_min_list xs = Inr m \<and> lower_end (set xs) m"
  using fold_min_least by (cases xs) (auto simp: py_min_list_def)

lemma py_max_list_greatest:
  "xs \<noteq> [] \<Longrightarrow> NaN \<notin> set xs \<Longrightarrow> \<exists>m. py_max_list xs = Inr m \<and> upper_end (set xs) m"
  using fold_max_greatest by (cases xs) (auto simp: py_max_list_def)

lemma lower_end_union:
  "lower_end A a \<Longrightarrow> lower_end B b \<Longrightarrow> lower_end {a, b} m \<Longrightarrow> lower_end (A \<union> B) m"
  unfolding lower_end_def by (auto intro: fl_le_trans)

lemma upper_end_union:
  "upper_end A a \<Longrightarrow> upper_end B b \<Longrightarrow> upper_end {a, b} m \<Longrightarrow> upper_end (A \<union> B) m"
  unfolding upper_end_def by (auto intro: fl_le_trans)

lemma lower_end_not_NaN: "lower_end A a \<Longrightarrow> NaN \<notin> A \<Longrightarrow> a \<noteq> NaN"
  by (auto simp: lower_end_def)

lemma upper_end_not_NaN: "upper_end A a \<Longrightarrow> NaN \<notin> A \<Longrightarrow> a \<noteq> NaN"
  by (auto simp: upper_end_def)

lemma np_min_run: "np_min v h = lift (np_amin (flat (contents h v))) h"
  by (simp add: np_min_def bnd_def get_contents_def)

lemma np_max_run: "np_max v h = lift (np_amax (flat (contents h v))) h"
  by (simp add: np_max_def bnd_def get_contents_def)

lemma np_min_of_pair: "np_min_of [Num a, Num b] h = lift (np_amin [a, b]) h"
  by (simp add: np_min_of_def as_ndarray_def bnd_def get_contents_def contents_def ret_def stack_def)

lemma np_max_of_pair: "np_max_of [Num a, Num b] h = lift (np_amax [a, b]) h"
  by (simp add: np_max_of_def as_ndarray_def bnd_def get_contents_def contents_def ret_def stack_def)

lemma min_of_mins:
  assumes "elements h d \<noteq> {}" "elements h t \<noteq> {}" "NaN \<notin> elements h d \<union> elements h t"
  shows "\<exists>m. bnd (np_min d) (\<lambda>a. bnd (np_min t) (\<lambda>b. bnd (np_min_of [Num a, Num b]) k)) h = k m h
            \<and> lower_end (elements h d \<union> elements h t) m"
proof -
  from assms obtain a where a: "np_amin (flat (contents h d)) = Inr a" "lower_end (elements h d) a"
    using py_min_list_least [of "flat (contents h d)"] by (auto simp: elements_def np_amin_def)
  from assms obtain b where b: "np_amin (flat (contents h t)) = Inr b" "lower_end (elements h t) b"
    using py_min_list_least [of "flat (contents h t)"] by (auto simp: elements_def np_amin_def)
  from a b assms have n: "NaN \<notin> set [a, b]"
    using lower_end_not_NaN [of "elements h d" a] lower_end_not_NaN [of "elements h t" b] by auto
  then obtain m where m: "np_amin [a, b] = Inr m" "lower_end {a, b} m"
    using py_min_list_least [of "[a, b]"] by (auto simp: np_amin_def)
  have "bnd (np_min d) (\<lambda>a. bnd (np_min t) (\<lambda>b. bnd (np_min_of [Num a, Num b]) k)) h = k m h"
    by (simp add: bnd_def np_min_run np_min_of_pair a b m ret_def)
  with lower_end_union [OF a(2) b(2) m(2)] show ?thesis by blast
qed

lemma max_of_maxs:
  assumes "elements h d \<noteq> {}" "elements h t \<noteq> {}" "NaN \<notin> elements h d \<union> elements h t"
  shows "\<exists>m. bnd (np_max d) (\<lambda>a. bnd (np_max t) (\<lambda>b. bnd (np_max_of [Num a, Num b]) k)) h = k m h
            \<and> upper_end (elements h d \<union> elements h t) m"
proof -
  from assms obtain a where a: "np_amax (flat (contents h d)) = Inr a" "upper_end (elements h d) a"
    using py_max_list_greatest [of "flat (contents h d)"] by (auto simp: elements_def np_amax_def)
  from assms obtain b where b: "np_amax (flat (contents h t)) = Inr b" "upper_end (elements h t) b"
    using py_max_list_greatest [of "flat (contents h t)"] by (auto simp: elements_def np_amax_def)
  from a b assms have n: "NaN \<notin> set [a, b]"
    using upper_end_not_NaN [of "elements h d" a] upper_end_not_NaN [of "elements h t" b] by auto
  then obtain m where m: "np_amax [a, b] = Inr m" "upper_end {a, b} m"
    using py_max_list_greatest [of "[a, b]"] by (auto simp: np_amax_def)
  have "bnd (np_max d) (\<lambda>a. bnd (np_max t) (\<lambda>b. bnd (np_max_of [Num a, Num b]) k)) h = k m h"
    by (simp add: bnd_def np_max_run np_max_of_pair a b m ret_def)
  with upper_end_union [OF a(2) b(2) m(2)] show ?thesis by blast
qed

lemma spline_model_bbox_covers:
  assumes "elements h wd \<noteq> {}" "elements h wt \<noteq> {}" "elements h rd \<noteq> {}" "elements h rt \<noteq> {}"
    and "NaN \<notin> elements h wd \<union> elements h wt" "NaN \<notin> elements h rd \<union> elements h rt"
  shows "\<exists>x0 x1 y0 y1. spline_model_bbox wt rt wd rd h = (Inr (x0, x1, y0, y1), h)
     \<and> lower_end (elements h wd \<union> elements h wt) x0 \<and> upper_end (elements h wd \<union> elements h wt) x1
     \<and> lower_end (elements h rd \<union> elements h rt) y0 \<and> upper_end (elements h rd \<union> elements h rt) y1"
proof -
  let ?k3 = "\<lambda>x0 x1 y0 y1. ret (x0, x1, y0, y1) :: (fl \<times> fl \<times> fl \<times> fl) py"
  let ?k2 = "\<lambda>x0 x1 y0. bnd (np_max rd) (\<lambda>a. bnd (np_max rt) (\<lambda>b. bnd (np_max_of [Num a, Num b]) (?k3 x0 x1 y0)))"
  let ?k1 = "\<lambda>x0 x1. bnd (np_min rd) (\<lambda>a. bnd (np_min rt) (\<lambda>b. bnd (np_min_of [Num a, Num b]) (?k2 x0 x1)))"
  let ?k0 = "\<lambda>x0. bnd (np_max wd) (\<lambda>a. bnd (np_max wt) (\<lambda>b. bnd (np_max_of [Num a, Num b]) (?k1 x0)))"
  have def: "spline_model_bbox wt rt wd rd =
     bnd (np_min wd) (\<lambda>a. bnd (np_min wt) (\<lambda>b. bnd (np_min_of [Num a, Num b]) ?k0))"
    by (simp add: spline_model_bbox_def)
  from min_of_mins [OF assms(1,2,5), of ?k0] obtain x0
    where x0: "spline_model_bbox wt rt wd rd h = ?k0 x0 h" "lower_end (elements h wd \<union> elements h wt) x0"
    unfolding def by blast
  from max_of_maxs [OF assms(1,2,5), of "?k1 x0"] obtain x1
    where x1: "?k0 x0 h = ?k1 x0 x1 h" "upper_end (elements h wd \<union> elements h wt) x1" by blast
  from min_of_mins [OF assms(3,4,6), of "?k2 x0 x1"] obtain y0
    where y0: "?k1 x0 x1 h = ?k2 x0 x1 y0 h" "lower_end (elements h rd \<union> elements h rt) y0" by blast
  from max_of_maxs [OF assms(3,4,6), of "?k3 x0 x1 y0"] obtain y1
    where y1: "?k2 x0 x1 y0 h = ?k3 x0 x1 y0 y1 h" "upper_end (elements h rd \<union> elements h rt) y1" by blast
  have "spline_model_bbox wt rt wd rd h = (Inr (x0, x1, y0, y1), h)"
    using x0(1) x1(1) y0(1) y1(1) by (simp add: ret_def)
  with x0(2) x1(2) y0(2) y1(2) show ?thesis by blast
qed

lemma contents_after_alloc:
  "exists_in h v \<Longrightarrow> contents (h\<lparr>cells := (cells h)(lim h := a), lim := Suc (lim h)\<rparr>) v = contents h v"
  by (cases v) (auto simp: exists_in_def contents_def)

lemma np_append_run:
  "np_append arr v h =
     (Inr (Arr (lim h)),
      h\<lparr>cells := (cells h)(lim h := \<lparr>shape = [length (flat (contents h arr)) + length (flat (contents h v))],
                                      flat = flat (contents h arr) @ flat (contents h v)\<rparr>),
        lim := Suc (lim h)\<rparr>)"
  by (simp add: np_append_def bnd_def get_contents_def alloc_def)

lemma builtin_min_run: "builtin_min v h = lift (py_min_list (flat (contents h v))) h"
  by (simp add: builtin_min_def bnd_def get_contents_def)

lemma builtin_max_run: "builtin_max v h = lift (py_max_list (flat (contents h v))) h"
  by (simp add: builtin_max_def bnd_def get_contents_def)

lemma single_bbox_covers:
  assumes ex: "exists_in h x" "exists_in h y" "exists_in h xd" "exists_in h yd"
    and ne: "elements h x \<noteq> {}" "elements h y \<noteq> {}"
    and nn: "NaN \<notin> elements h xd \<union> elements h x" "NaN \<notin> elements h yd \<union> elements h y"
  shows "\<exists>ax ay x0 x1 y0 y1 h'. single_bbox x y xd yd h = (Inr (ax, ay, x0, x1, y0, y1), h')
     \<and> lower_end (elements h xd \<union> elements h x) x0 \<and> upper_end (elements h xd \<union> elements h x) x1
     \<and> lower_end (elements h yd \<union> elements h y) y0 \<and> upper_end (elements h yd \<union> elements h y) y1"
proof -
  let ?X = "flat (contents h xd) @ flat (contents h x)"
  let ?Y = "flat (contents h yd) @ flat (contents h y)"
  have sX: "set ?X = elements h xd \<union> elements h x" and sY: "set ?Y = elements h yd \<union> elements h y"
    by (simp_all add: elements_def)
  from ne have neX: "?X \<noteq> []" and neY: "?Y \<noteq> []" by (auto simp: elements_def)
  from py_min_list_least [OF neX] nn sX obtain x0
    where x0: "py_min_list ?X = Inr x0" "lower_end (elements h xd \<union> elements h x) x0" by auto
  from py_max_list_greatest [OF neX] nn sX obtain x1
    where x1: "py_max_list ?X = Inr x1" "upper_end (elements h xd \<union> elements h x) x1" by auto
  from py_min_list_least [OF neY] nn sY obtain y0
    where y0: "py_min_list ?Y = Inr y0" "lower_end (elements h yd \<union> elements h y) y0" by auto
  from py_max_list_greatest [OF neY] nn sY obtain y1
    where y1: "py_max_list ?Y = Inr y1" "upper_end (elements h yd \<union> elements h y) y1" by auto
  have "fst (single_bbox x y xd yd h) = Inr (Arr (lim h), Arr (Suc (lim h)), x0, x1, y0, y1)"
    by (simp add: single_bbox_def bnd_def np_append_run builtin_min_run builtin_max_run
          contents_after_alloc ex x0 x1 y0 y1 ret_def contents_def [of _ "Arr _"])
  then have "\<exists>h'. single_bbox x y xd yd h = (Inr (Arr (lim h), Arr (Suc (lim h)), x0, x1, y0, y1), h')"
    by (cases "single_bbox x y xd yd h") simp
  with x0(2) x1(2) y0(2) y1(2) show ?thesis by blast
qed

lemma calibration_elements:
  "elements calibration (Arr 0) = Fin ` {2, 4, 6, 8, 10, 12, 14, 16}"
  "elements calibration (Arr 1) = Fin ` {2, 1, 2 / 3, 1 / 2, 2 / 5, 1 / 3, 2 / 7, 1 / 4}"
  "elements calibration (Num x) = {x}"
  by (simp_all add: elements_def contents_def calibration_def store_of_def
        calibration_widths_def calibration_ratios_def vector_def)

text \<open>
  Claim C6. The bounding box computed for the spline fit covers the calibration data
  and the query on each axis. For arrays that exist, are not empty and hold no NaN, both
  computations of a bounding box succeed: the one of \<^verbatim>\<open>spline_model\<close> (lines 50 to
  54) and the one of \<^verbatim>\<open>_single_calculate_deformability\<close> (lines 88 to 93). In both
  the width interval runs from the least to the greatest of the data widths and the
  query widths together, and the ratio interval from the least to the greatest of the
  data ratios and the query ratios together.
\<close>

theorem bounding_box_covers_data_and_query:
  assumes "exists_in h wt" "exists_in h rt" "exists_in h wd" "exists_in h rd"
    and "elements h wt \<noteq> {}" "elements h rt \<noteq> {}" "elements h wd \<noteq> {}" "elements h rd \<noteq> {}"
    and "NaN \<notin> elements h wd \<union> elements h wt" "NaN \<notin> elements h rd \<union> elements h rt"
  shows "(\<exists>x0 x1 y0 y1. fst (spline_model_bbox wt rt wd rd h) = Inr (x0, x1, y0, y1)
       \<and> lower_end (elements h wd \<union> elements h wt) x0
       \<and> upper_end (elements h wd \<union> elements h wt) x1
       \<and> lower_end (elements h rd \<union> elements h rt) y0
       \<and> upper_end (elements h rd \<union> elements h rt) y1)
    \<and> (\<exists>adjusted_x_data adjusted_y_data x0 x1 y0 y1.
         fst (single_bbox wt rt wd rd h) = Inr (adjusted_x_data, adjusted_y_data, x0, x1, y0, y1)
       \<and> lower_end (elements h wd \<union> elements h wt) x0
       \<and> upper_end (elements h wd \<union> elements h wt) x1
       \<and> lower_end (elements h rd \<union> elements h rt) y0
       \<and> upper_end (elements h rd \<union> elements h rt) y1)"
proof
  from spline_model_bbox_covers [OF assms(7,5,8,6,9,10)]
  show "\<exists>x0 x1 y0 y1. fst (spline_model_bbox wt rt wd rd h) = Inr (x0, x1, y0, y1)
       \<and> lower_end (elements h wd \<union> elements h wt) x0
       \<and> upper_end (elements h wd \<union> elements h wt) x1
       \<and> lower_end (elements h rd \<union> elements h rt) y0
       \<and> upper_end (elements h rd \<union> elements h rt) y1"
    by fastforce
  from single_bbox_covers [OF assms(1-6,9,10)]
  show "\<exists>adjusted_x_data adjusted_y_data x0 x1 y0 y1.
         fst (single_bbox wt rt wd rd h) = Inr (adjusted_x_data, adjusted_y_data, x0, x1, y0, y1)
       \<and> lower_end (elements h wd \<union> elements h wt) x0
       \<and> upper_end (elements h wd \<union> elements h wt) x1
       \<and> lower_end (elements h rd \<union> elements h rt) y0
       \<and> upper_end (elements h rd \<union> elements h rt) y1"
    by fastforce
qed

theorem bounding_box_covers_data_and_query_witness:
  "exists_in calibration (Num (Fin 100)) \<and> exists_in calibration (Num (Fin (1 / 25)))
   \<and> exists_in calibration (Arr 0) \<and> exists_in calibration (Arr 1)
   \<and> elements calibration (Num (Fin 100)) \<noteq> {} \<and> elements calibration (Num (Fin (1 / 25))) \<noteq> {}
   \<and> elements calibration (Arr 0) \<noteq> {} \<and> elements calibration (Arr 1) \<noteq> {}
   \<and> NaN \<notin> elements calibration (Arr 0) \<union> elements calibration (Num (Fin 100))
   \<and> NaN \<notin> elements calibration (Arr 1) \<union> elements calibration (Num (Fin (1 / 25)))
   \<and> (\<exists>x0 x1 y0 y1.
         fst (spline_model_bbox (Num (Fin 100)) (Num (Fin (1 / 25))) (Arr 0) (Arr 1) calibration)
           = Inr (x0, x1, y0, y1)
       \<and> lower_end (elements calibration (Arr 0) \<union> elements calibration (Num (Fin 100))) x0
       \<and> upper_end (elements calibration (Arr 0) \<union> elements calibration (Num (Fin 100))) x1
       \<and> lower_end (elements calibration (Arr 1) \<union> elements calibration (Num (Fin (1 / 25)))) y0
       \<and> upper_end (elements calibration (Arr 1) \<union> elements calibration (Num (Fin (1 / 25)))) y1)"
proof -
  have e: "exists_in calibration (Num (Fin 100))" "exists_in calibration (Num (Fin (1 / 25)))"
    "exists_in calibration (Arr 0)" "exists_in calibration (Arr 1)"
    by (simp_all add: exists_in_def calibration_def store_of_def)
  have n: "elements calibration (Num (Fin 100)) \<noteq> {}" "elements calibration (Num (Fin (1 / 25))) \<noteq> {}"
    "elements calibration (Arr 0) \<noteq> {}" "elements calibration (Arr 1) \<noteq> {}"
    unfolding calibration_elements by simp_all
  have f: "NaN \<notin> elements calibration (Arr 0) \<union> elements calibration (Num (Fin 100))"
    "NaN \<notin> elements calibration (Arr 1) \<union> elements calibration (Num (Fin (1 / 25)))"
    unfolding calibration_elements by auto
  from bounding_box_covers_data_and_query [OF e n f] e n f show ?thesis by blast
qed

text \<open>For the query at width 100 the box is widened to 100.\<close>

lemma bounding_box_of_far_query:
  "fst (spline_model_bbox (Num (Fin 100)) (Num (Fin (1 / 25))) (Arr 0) (Arr 1) calibration)
     = Inr (Fin 2, Fin 100, Fin (1 / 25), Fin 2)"
  by (simp add: spline_model_bbox_def bnd_def np_min_run np_max_run np_min_of_pair np_max_of_pair
        contents_def calibration_def store_of_def calibration_widths_def calibration_ratios_def
        vector_def np_amin_def np_amax_def py_min_list_def py_max_list_def ret_def)

section \<open>Determinism and the caller's arrays\<close>

text \<open>
  Claim C8. Every operation is deterministic and free of side effects. Two calls
  whose arguments hold the same data, whatever the addresses of the arrays and whatever
  else the two stores hold, end alike: with the same exception, or with results that
  hold the same data. And a call leaves every object that exists before it as it is.
  The spline library is a function of the data it is given.
\<close>

theorem deterministic_and_side_effect_free:
  assumes "same_input h wt h' wt'" "same_input h rt h' rt'"
    "same_input h wd h' wd'" "same_input h rd h' rd'" "same_input h fd h' fd'"
  shows "outcome (spline_model L wt rt wd rd fd h) = outcome (spline_model L wt' rt' wd' rd' fd' h')
    \<and> outcome (calculate_deformability L wt rt wd rd fd h)
        = outcome (calculate_deformability L wt' rt' wd' rd' fd' h')
    \<and> outcome (spline_model_with_deformability L wt rt wd rd fd h)
        = outcome (spline_model_with_deformability L wt' rt' wd' rd' fd' h')
    \<and> outcome (calculate_percent_prediction_differences L wd rd fd h)
        = outcome (calculate_percent_prediction_differences L wd' rd' fd' h')
    \<and> unchanged h (snd (spline_model L wt rt wd rd fd h))
    \<and> unchanged h (snd (calculate_deformability L wt rt wd rd fd h))
    \<and> unchanged h (snd (spline_model_with_deformability L wt rt wd rd fd h))
    \<and> unchanged h (snd (calculate_percent_prediction_differences L wd rd fd h))"
proof -
  let ?P = "\<lambda>k k'. same_input k wt k' wt' \<and> same_input k rt k' rt' \<and> same_input k wd k' wd'
     \<and> same_input k rd k' rd' \<and> same_input k fd k' fd'"
  have st: "stable ?P" by (intro stable_intros)
  have g: "gives ?P wt wt'" "gives ?P rt rt'" "gives ?P wd wd'" "gives ?P rd rd'" "gives ?P fd fd'"
    by (simp_all add: gives_def)
  have P: "?P h h'" using assms by simp
  have "outcome (spline_model L wt rt wd rd fd h) = outcome (spline_model L wt' rt' wd' rd' fd' h')"
    by (rule sim_outcome [OF sim_spline_model [OF g st] P])
  moreover have "outcome (calculate_deformability L wt rt wd rd fd h)
        = outcome (calculate_deformability L wt' rt' wd' rd' fd' h')"
    by (rule sim_outcome [OF sim_calculate_deformability [OF g st] P])
  moreover have "outcome (spline_model_with_deformability L wt rt wd rd fd h)
        = outcome (spline_model_with_deformability L wt' rt' wd' rd' fd' h')"
    by (rule sim_outcome [OF sim_gated [OF g st] P])
  moreover have "outcome (calculate_percent_prediction_differences L wd rd fd h)
        = outcome (calculate_percent_prediction_differences L wd' rd' fd' h')"
    by (rule sim_outcome [OF sim_percent [OF g(3-5) st] P])
  ultimately show ?thesis
    by (simp add: frameD frame_intros)
qed

theorem deterministic_and_side_effect_free_witness:
  "same_input calibration (Num (Fin 9)) calibration_later (Num (Fin 9))
   \<and> same_input calibration (Num (Fin (4 / 9))) calibration_later (Num (Fin (4 / 9)))
   \<and> same_input calibration (Arr 0) calibration_later (Arr 1)
   \<and> same_input calibration (Arr 1) calibration_later (Arr 2)
   \<and> same_input calibration (Arr 2) calibration_later (Arr 3)
   \<and> outcome (spline_model constant_lib (Num (Fin 9)) (Num (Fin (4 / 9)))
         (Arr 0) (Arr 1) (Arr 2) calibration)
     = outcome (spline_model constant_lib (Num (Fin 9)) (Num (Fin (4 / 9)))
         (Arr 1) (Arr 2) (Arr 3) calibration_later)
   \<and> outcome (calculate_percent_prediction_differences constant_lib (Arr 0) (Arr 1) (Arr 2) calibration)
     = outcome (calculate_percent_prediction_differences constant_lib (Arr 1) (Arr 2) (Arr 3)
         calibration_later)"
proof -
  note run = deterministic_and_side_effect_free
    [OF same_input_Num [of calibration "Fin 9" calibration_later]
        same_input_Num [of calibration "Fin (4 / 9)" calibration_later] calibration_inputs,
     where L = constant_lib]
  from run calibration_inputs same_input_Num show ?thesis by blast
qed

text \<open>
  Claim C9. No operation mutates an array of its caller: after a call, also one that
  ends with an exception, every value that existed before the call, the calibration and
  query arrays among them, holds the data it held before. The arrays that
  \<^verbatim>\<open>np.append\<close> and \<^verbatim>\<open>np.delete\<close> build and the array that line 205 writes
  into are new ones.
\<close>

theorem inputs_not_mutated:
  assumes "exists_in h v"
  shows "contents (snd (spline_model L wt rt wd rd fd h)) v = contents h v
    \<and> contents (snd (calculate_deformability L wt rt wd rd fd h)) v = contents h v
    \<and> contents (snd (spline_model_with_deformability L wt rt wd rd fd h)) v = contents h v
    \<and> contents (snd (calculate_percent_prediction_differences L wd rd fd h)) v = contents h v"
  using assms by (simp add: unchanged_contents frameD frame_intros)

theorem inputs_not_mutated_witness:
  "exists_in calibration (Arr 2)
   \<and> contents (snd (calculate_percent_prediction_differences constant_lib (Arr 0) (Arr 1) (Arr 2)
         calibration)) (Arr 2) = calibration_factors
   \<and> contents (snd (spline_model_with_deformability constant_lib (Num (Fin 9)) (Num (Fin (4 / 9)))
         (Arr 0) (Arr 1) (Arr 2) calibration)) (Arr 2) = calibration_factors"
  using inputs_not_mutated
    [where h = calibration and v = "Arr 2" and L = constant_lib
       and wt = "Num (Fin 9)" and rt = "Num (Fin (4 / 9))"
       and wd = "Arr 0" and rd = "Arr 1" and fd = "Arr 2"]
  by (simp add: exists_in_def contents_def calibration_def store_of_def)

section \<open>The calls that raise\<close>

lemmas run_defs =
  bnd_def ret_def raise_def lift_def get_contents_def contents_def alloc_def load_name_def
  np_shape_def py_len_def builtin_min_def builtin_max_def py_min_list_def py_max_list_def
  np_min_def np_max_def np_amin_def np_amax_def stack_def as_ndarray_def np_min_of_def np_max_of_def
  np_array_def np_array2_def np_append_def np_delete_def getitem1_def getitem2_def
  SmoothBivariateSpline_def spline_ev_def constant_lib_def
  spline_model_bbox_def spline_model_def single_bbox_def single_calculate_deformability_def
  calculate_deformability_def spline_model_with_deformability_def
  calculate_percent_prediction_differences_def
  store_of_def vector_def calibration_widths_def calibration_ratios_def calibration_factors_def
  calibration_def queries_def calibration_zero_factor_def Let_def

lemma failsD: "fails m \<Longrightarrow> \<exists>e h'. m h = (Inl e, h')"
  unfolding fails_def by (metis isl_def prod.collapse)

lemma bnd_returns:
  assumes "bnd m f h = (Inr y, h')"
  obtains x h1 where "m h = (Inr x, h1)" "f x h1 = (Inr y, h')"
proof (cases rule: bnd_cases [of m h f])
  case (fail e h1)
  with assms show ?thesis by simp
next
  case (ok x h1)
  with assms that show ?thesis by simp
qed

lemma fails_comprehension: "(\<And>x. fails (f x)) \<Longrightarrow> xs \<noteq> [] \<Longrightarrow> fails (comprehension f xs)"
  by (cases xs) (simp_all add: fails_bnd_left)

lemma comprehension_returns:
  assumes f: "\<And>x. fails (f x)" and r: "comprehension f xs h = (Inr ys, h')"
  shows "xs = [] \<and> ys = [] \<and> h' = h"
proof (cases xs)
  case Nil
  with r show ?thesis by (simp add: ret_def)
next
  case (Cons x rest)
  then have ne: "xs \<noteq> []" by simp
  have "fails (comprehension f xs)"
    by (rule fails_comprehension) (rule f, rule ne)
  from failsD [OF this, where h = h] r show ?thesis by simp
qed

lemma fails_fold:
  "fails (bnd (getitem1 wd i) (\<lambda>width_test.
      bnd (getitem1 rd i) (\<lambda>ratio_perim_area_test.
      bnd (np_delete wd i) (\<lambda>widths.
      bnd (np_delete rd i) (\<lambda>ratios.
      bnd (np_delete fd i) (\<lambda>factors.
      spline_model_with_deformability L width_test ratio_perim_area_test widths ratios factors))))))"
  by (intro fails_bnd_right gated_fails)

lemma py_len_run:
  "py_len v h = (case shape (contents h v) of [] \<Rightarrow> (Inl TypeError, h) | d # ds \<Rightarrow> (Inr d, h))"
  by (simp add: py_len_def bnd_def get_contents_def raise_def ret_def split: list.splits)

lemma percent_fails:
  assumes "shape (contents h wd) = n # ds" "0 < n"
  shows "isl (fst (calculate_percent_prediction_differences L wd rd fd h))"
proof -
  from assms(2) have ne: "[0..<n] \<noteq> []" by simp
  let ?F = "\<lambda>i. bnd (getitem1 wd i) (\<lambda>width_test.
      bnd (getitem1 rd i) (\<lambda>ratio_perim_area_test.
      bnd (np_delete wd i) (\<lambda>widths.
      bnd (np_delete rd i) (\<lambda>ratios.
      bnd (np_delete fd i) (\<lambda>factors.
      spline_model_with_deformability L width_test ratio_perim_area_test widths ratios factors)))))"
  have "fails (comprehension ?F [0..<n])"
    by (rule fails_comprehension) (rule fails_fold, rule ne)
  from failsD [OF this, where h = h]
  obtain e h' where "comprehension ?F [0..<n] h = (Inl e, h')" by blast
  then show ?thesis
    by (simp add: calculate_percent_prediction_differences_def bnd_def py_len_run assms(1))
qed


lemma broadcast_dims_zero:
  "broadcast_dims xs ys = Inr s \<Longrightarrow> 0 \<in> set xs \<or> 0 \<in> set ys \<Longrightarrow> 0 \<in> set s"
  by (induction xs ys arbitrary: s rule: broadcast_dims.induct)
     (auto split: sum.splits if_splits)

lemma indices_zero: "0 \<in> set s \<Longrightarrow> indices s = []"
  by (induction s) auto

lemma broadcast2_empty:
  assumes "broadcast2 f a b = Inr r" "0 \<in> set (shape a) \<or> 0 \<in> set (shape b)"
  shows "0 \<in> set (shape r) \<and> flat r = []"
proof -
  let ?n = "max (length (shape a)) (length (shape b))"
  obtain s where s: "broadcast_dims (pad_shape ?n (shape a)) (pad_shape ?n (shape b)) = Inr s"
    and r: "shape r = s" "length (flat r) = length (indices s)"
  proof (cases "broadcast_dims (pad_shape ?n (shape a)) (pad_shape ?n (shape b))")
    case (Inl e)
    with assms(1) show ?thesis by (simp add: broadcast2_def Let_def)
  next
    case (Inr s)
    with assms(1) that [of s] show ?thesis by (auto simp: broadcast2_def Let_def)
  qed
  from assms(2) have "0 \<in> set (pad_shape ?n (shape a)) \<or> 0 \<in> set (pad_shape ?n (shape b))"
    by (auto simp: pad_shape_def)
  from broadcast_dims_zero [OF s this] r show ?thesis by (simp add: indices_zero)
qed

lemma np_binop_empty:
  assumes "np_binop f x y h = (Inr v, h')"
    and "0 \<in> set (shape (contents h x)) \<or> 0 \<in> set (shape (contents h y))"
  shows "0 \<in> set (shape (contents h' v)) \<and> flat (contents h' v) = []"
proof (cases "broadcast2 f (contents h x) (contents h y)")
  case (Inl e)
  with assms(1) show ?thesis
    by (simp add: np_binop_def bnd_def get_contents_def raise_def)
next
  case (Inr r)
  from broadcast2_empty [OF Inr assms(2)] have z: "0 \<in> set (shape r)" "flat r = []" by simp_all
  then have "shape r \<noteq> []" by auto
  with assms(1) Inr have "v = Arr (lim h)" "cells h' (lim h) = r"
    by (auto simp: np_binop_def bnd_def get_contents_def ret_def alloc_def)
  with z show ?thesis by (simp add: contents_def)
qed

lemma np_array_nil:
  "np_array [] h = (Inr (Arr (lim h)),
     h\<lparr>cells := (cells h)(lim h := \<lparr>shape = [0], flat = []\<rparr>), lim := Suc (lim h)\<rparr>)"
  by (simp add: np_array_def as_ndarray_def bnd_def ret_def stack_def alloc_def)

lemma percent_returns_nothing:
  assumes "calculate_percent_prediction_differences L wd rd fd h = (Inr v, h')"
  shows "flat (contents h' v) = []"
proof -
  let ?F = "\<lambda>i. bnd (getitem1 wd i) (\<lambda>width_test.
      bnd (getitem1 rd i) (\<lambda>ratio_perim_area_test.
      bnd (np_delete wd i) (\<lambda>widths.
      bnd (np_delete rd i) (\<lambda>ratios.
      bnd (np_delete fd i) (\<lambda>factors.
      spline_model_with_deformability L width_test ratio_perim_area_test widths ratios factors)))))"
  let ?rest = "\<lambda>predictions. bnd (np_array predictions) (\<lambda>predicted.
     bnd (np_binop fl_sub fd predicted) (\<lambda>difference.
     bnd (np_binop fl_mul (Num (Fin 100)) difference) (\<lambda>scaled.
     np_binop fl_div scaled fd)))"
  have def: "calculate_percent_prediction_differences L wd rd fd
      = bnd (py_len wd) (\<lambda>n. bnd (comprehension ?F [0..<n]) ?rest)"
    by (simp add: calculate_percent_prediction_differences_def)
  from assms [unfolded def] obtain n h0
    where r1: "bnd (comprehension ?F [0..<n]) ?rest h0 = (Inr v, h')" and "py_len wd h = (Inr n, h0)"
    by (rule bnd_returns)
  then have h0: "h0 = h" by (auto simp: py_len_run split: list.splits)
  from r1 obtain ys h1 where c: "comprehension ?F [0..<n] h0 = (Inr ys, h1)"
    and r2: "?rest ys h1 = (Inr v, h')"
    by (rule bnd_returns)
  have "[0..<n] = [] \<and> ys = [] \<and> h1 = h0"
    by (rule comprehension_returns [OF _ c]) (rule fails_fold)
  with h0 have ys: "ys = []" "h1 = h" by simp_all
  let ?h2 = "h\<lparr>cells := (cells h)(lim h := \<lparr>shape = [0], flat = []\<rparr>), lim := Suc (lim h)\<rparr>"
  let ?p = "Arr (lim h)"
  from r2 [unfolded ys] obtain p h2 where a: "np_array [] h = (Inr p, h2)"
    and r3: "bnd (np_binop fl_sub fd p) (\<lambda>difference.
     bnd (np_binop fl_mul (Num (Fin 100)) difference) (\<lambda>scaled.
     np_binop fl_div scaled fd)) h2 = (Inr v, h')"
    by (rule bnd_returns)
  from a have p: "p = ?p" "h2 = ?h2" by (simp_all add: np_array_nil)
  from r3 obtain d h3 where d: "np_binop fl_sub fd p h2 = (Inr d, h3)"
    and r4: "bnd (np_binop fl_mul (Num (Fin 100)) d) (\<lambda>scaled. np_binop fl_div scaled fd) h3 = (Inr v, h')"
    by (rule bnd_returns)
  have "0 \<in> set (shape (contents h2 p))" by (simp add: p contents_def)
  with np_binop_empty [OF d] have d0: "0 \<in> set (shape (contents h3 d))" by simp
  from r4 obtain s h4 where s: "np_binop fl_mul (Num (Fin 100)) d h3 = (Inr s, h4)"
    and r5: "np_binop fl_div s fd h4 = (Inr v, h')"
    by (rule bnd_returns)
  from np_binop_empty [OF s] d0 have "0 \<in> set (shape (contents h4 s))" by simp
  with np_binop_empty [OF r5] show ?thesis by simp
qed

text \<open>
  Line 205 on its own, for a prediction and a score of one shape: the positions whose
  score exceeds 0.5 become NaN, the others keep the prediction.
\<close>

lemma mask_fill_one:
  "length mb = length xs \<Longrightarrow>
   mask_fill (Suc 0) mb c xs = map (\<lambda>(m, x). if m then c else x) (zip mb xs)"
  by (rule nth_equalityI) (simp_all add: mask_fill_def)

lemma mask_invalid_masks:
  assumes "shape (contents h deformability) = shape (cells h p)"
    and "length (flat (contents h deformability)) = length (flat (cells h p))"
  shows "fst (mask_invalid (Arr p) deformability h) = Inr ()
    \<and> flat (cells (snd (mask_invalid (Arr p) deformability h)) p)
      = map (\<lambda>(d, x). if fl_less (Fin (1 / 2)) d then NaN else x)
          (zip (flat (contents h deformability)) (flat (cells h p)))"
proof -
  let ?d = "contents h deformability"
  let ?m = "(shape ?d, map (\<lambda>x. fl_less (Fin (1 / 2)) x) (flat ?d))"
  have run: "mask_invalid (Arr p) deformability h = setitem_mask (Arr p) ?m NaN h"
    by (simp add: mask_invalid_def np_greater_def bnd_def get_contents_def ret_def)
  have fill: "mask_fill (Suc 0) (snd ?m) NaN (flat (cells h p))
      = map (\<lambda>(d, x). if fl_less (Fin (1 / 2)) d then NaN else x) (zip (flat ?d) (flat (cells h p)))"
    using assms(2) by (simp add: mask_fill_one zip_map1 case_prod_unfold)
  show ?thesis
    unfolding run using fill assms(1) by (simp add: setitem_mask_def Let_def)
qed

text \<open>
  Claim C2. The single-point deformability fits a baseline spline with a bounding box
  that includes the test point, evaluates it at the test point, appends the test point
  with the baseline raised and lowered by 0.02, refits, and returns the larger of the two
  sensitivities. The code does not get there: after the baseline is bound to
  \<^verbatim>\<open>initial_model\<close>, line 98 reads \<^verbatim>\<open>initial_fit\<close>, a name that nothing binds.
  Every call raises, for every library and every input; on the eight calibration points
  and the query (9, 4/9) the exception is the NameError.
\<close>

theorem single_point_deformability_raises:
  "isl (fst (single_calculate_deformability L x_test y_test x_data y_data z_data h))
   \<and> fst (single_calculate_deformability constant_lib (Num (Fin 9)) (Num (Fin (4 / 9)))
        (Arr 0) (Arr 1) (Arr 2) calibration) = Inl (NameError ''initial_fit'')"
proof
  show "isl (fst (single_calculate_deformability L x_test y_test x_data y_data z_data h))"
    using single_fails [of L x_test y_test x_data y_data z_data] by (simp add: fails_def)
  show "fst (single_calculate_deformability constant_lib (Num (Fin 9)) (Num (Fin (4 / 9)))
        (Arr 0) (Arr 1) (Arr 2) calibration) = Inl (NameError ''initial_fit'')"
    by (simp add: run_defs)
qed

text \<open>
  Claim C3. For a scalar, a 1-d and a 2-d query, the batched deformability and the gated
  predictor return an output of the query's shape. The code returns no output: each
  point's call raises the NameError of line 98, and a query without points reaches the
  shape assertion of line 164, which reads the unbound name \<^verbatim>\<open>dims\<close>.
\<close>

theorem deformability_returns_no_shape:
  "isl (fst (calculate_deformability L x_test y_test x_data y_data z_data h))
   \<and> fst (calculate_deformability constant_lib (Num (Fin 9)) (Num (Fin (4 / 9)))
        (Arr 0) (Arr 1) (Arr 2) queries) = Inl (NameError ''initial_fit'')
   \<and> fst (calculate_deformability constant_lib (Arr 3) (Arr 4) (Arr 0) (Arr 1) (Arr 2) queries)
       = Inl (NameError ''initial_fit'')
   \<and> fst (calculate_deformability constant_lib (Arr 5) (Arr 5) (Arr 0) (Arr 1) (Arr 2) queries)
       = Inl (NameError ''dims'')
   \<and> fst (spline_model_with_deformability constant_lib (Arr 3) (Arr 4) (Arr 0) (Arr 1) (Arr 2)
        queries) = Inl (NameError ''initial_fit'')"
proof (intro conjI)
  show "isl (fst (calculate_deformability L x_test y_test x_data y_data z_data h))"
    using calculate_deformability_fails [of L x_test y_test x_data y_data z_data]
    by (simp add: fails_def)
  show "fst (calculate_deformability constant_lib (Num (Fin 9)) (Num (Fin (4 / 9)))
        (Arr 0) (Arr 1) (Arr 2) queries) = Inl (NameError ''initial_fit'')"
    by (simp add: run_defs)
  show "fst (calculate_deformability constant_lib (Arr 3) (Arr 4) (Arr 0) (Arr 1) (Arr 2) queries)
       = Inl (NameError ''initial_fit'')"
    by (simp add: run_defs upt_conv_Cons)
  show "fst (calculate_deformability constant_lib (Arr 5) (Arr 5) (Arr 0) (Arr 1) (Arr 2) queries)
       = Inl (NameError ''dims'')"
    by (simp add: run_defs)
  show "fst (spline_model_with_deformability constant_lib (Arr 3) (Arr 4) (Arr 0) (Arr 1) (Arr 2)
        queries) = Inl (NameError ''initial_fit'')"
    by (simp add: run_defs upt_conv_Cons)
qed

text \<open>
  Claim C4. For a grid query the single-point algorithm is applied to every cell once,
  over the true row and column extents. The code raises at the first cell of a grid of
  one row and two columns. And the list it builds has the columns outside and the rows
  inside: for the grid of no row and two columns it builds an array of two rows and no
  column, before the assertion raises.
\<close>

theorem grid_query_raises_and_is_transposed:
  "fst (calculate_deformability constant_lib (Arr 6) (Arr 7) (Arr 0) (Arr 1) (Arr 2) queries)
     = Inl (NameError ''initial_fit'')
   \<and> shape (cells queries 8) = [0, 2]
   \<and> fst (calculate_deformability constant_lib (Arr 8) (Arr 8) (Arr 0) (Arr 1) (Arr 2) queries)
       = Inl (NameError ''dims'')
   \<and> shape (cells (snd (calculate_deformability constant_lib (Arr 8) (Arr 8) (Arr 0) (Arr 1) (Arr 2)
        queries)) 9) = [2, 0]"
proof (intro conjI)
  show "fst (calculate_deformability constant_lib (Arr 6) (Arr 7) (Arr 0) (Arr 1) (Arr 2) queries)
     = Inl (NameError ''initial_fit'')"
    by (simp add: run_defs upt_conv_Cons)
  show "shape (cells queries 8) = [0, 2]"
    by (simp add: queries_def store_of_def)
  show "fst (calculate_deformability constant_lib (Arr 8) (Arr 8) (Arr 0) (Arr 1) (Arr 2) queries)
       = Inl (NameError ''dims'')"
    by (simp add: run_defs upt_conv_Cons)
  show "shape (cells (snd (calculate_deformability constant_lib (Arr 8) (Arr 8) (Arr 0) (Arr 1) (Arr 2)
        queries)) 9) = [2, 0]"
    by (simp add: run_defs upt_conv_Cons)
qed

text \<open>
  Claim C1. In the output of the gated predictor the positions with a deformability
  above 0.5 hold NaN and the others hold the spline prediction. The code produces no
  output: the call of \<^verbatim>\<open>calculate_deformability\<close> raises for every library and every
  input, before line 205 is reached.
\<close>

theorem gated_predictor_raises:
  "isl (fst (spline_model_with_deformability L wt rt wd rd fd h))
   \<and> fst (spline_model_with_deformability constant_lib (Num (Fin 9)) (Num (Fin (4 / 9)))
        (Arr 0) (Arr 1) (Arr 2) calibration) = Inl (NameError ''initial_fit'')"
proof
  show "isl (fst (spline_model_with_deformability L wt rt wd rd fd h))"
    using gated_fails [of L wt rt wd rd fd] by (simp add: fails_def)
  show "fst (spline_model_with_deformability constant_lib (Num (Fin 9)) (Num (Fin (4 / 9)))
        (Arr 0) (Arr 1) (Arr 2) calibration) = Inl (NameError ''initial_fit'')"
    by (simp add: run_defs)
qed

text \<open>
  Claim C5. For \<open>n\<close> calibration points with nonzero factors the percent differences
  are an array of \<open>n\<close> entries, each from the gated prediction without that point. The
  code raises as soon as there is one calibration point: the first leave-one-out
  prediction raises.
\<close>

theorem leave_one_out_raises:
  assumes "shape (contents h width_data) = n # ds" "0 < n"
  shows "isl (fst (calculate_percent_prediction_differences L width_data ratio_perim_area_data
                     factor_data h))"
  using assms by (rule percent_fails)

theorem leave_one_out_raises_witness:
  "shape (contents calibration (Arr 0)) = 8 # [] \<and> (0 :: nat) < 8
   \<and> isl (fst (calculate_percent_prediction_differences constant_lib (Arr 0) (Arr 1) (Arr 2)
             calibration))
   \<and> fst (calculate_percent_prediction_differences constant_lib (Arr 0) (Arr 1) (Arr 2) calibration)
       = Inl (NameError ''initial_fit'')"
proof -
  have s: "shape (contents calibration (Arr 0)) = 8 # []"
    by (simp add: contents_def calibration_def store_of_def calibration_widths_def vector_def)
  have p: "(0 :: nat) < 8" by simp
  have e: "fst (calculate_percent_prediction_differences constant_lib (Arr 0) (Arr 1) (Arr 2)
      calibration) = Inl (NameError ''initial_fit'')"
    by (simp add: run_defs upt_conv_Cons)
  from leave_one_out_raises [OF s p, of constant_lib "Arr 1" "Arr 2"] s p e show ?thesis by blast
qed

text \<open>
  Claim C7. With a calibration factor of zero the percent differences do not crash and
  hold a non-finite entry there. The code raises the NameError before any division.
\<close>

theorem zero_factor_raises:
  "flat (cells calibration_zero_factor 2) ! 2 = Fin 0
   \<and> fst (calculate_percent_prediction_differences constant_lib (Arr 0) (Arr 1) (Arr 2)
        calibration_zero_factor) = Inl (NameError ''initial_fit'')"
  by (simp add: run_defs upt_conv_Cons)

text \<open>
  Claim C10. Where the leave-one-out prediction is the invalid sentinel the percent
  difference is NaN, so the output can hold non-finite entries also when no factor is
  zero. In the code no leave-one-out prediction is ever returned: whenever
  \<^verbatim>\<open>calculate_percent_prediction_differences\<close> returns, its result holds no entry
  at all.
\<close>

theorem percent_differences_hold_no_entry:
  assumes "fst (calculate_percent_prediction_differences L wd rd fd h) = Inr v"
  shows "flat (contents (snd (calculate_percent_prediction_differences L wd rd fd h)) v) = []"
  using assms percent_returns_nothing [of L wd rd fd h v]
  by (cases "calculate_percent_prediction_differences L wd rd fd h") simp

theorem percent_differences_hold_no_entry_witness:
  "fst (calculate_percent_prediction_differences constant_lib (Arr 5) (Arr 5) (Arr 5) queries)
     = Inr (Arr 12)
   \<and> flat (contents (snd (calculate_percent_prediction_differences constant_lib
        (Arr 5) (Arr 5) (Arr 5) queries)) (Arr 12)) = []
   \<and> fst (calculate_percent_prediction_differences constant_lib (Arr 1) (Arr 2) (Arr 3)
        calibration_later) = Inl (NameError ''initial_fit'')"
proof -
  have r: "fst (calculate_percent_prediction_differences constant_lib (Arr 5) (Arr 5) (Arr 5)
      queries) = Inr (Arr 12)"
    by (simp add: run_defs np_binop_def broadcast2_def pad_shape_def)
  have e: "fst (calculate_percent_prediction_differences constant_lib (Arr 1) (Arr 2) (Arr 3)
      calibration_later) = Inl (NameError ''initial_fit'')"
    by (simp add: run_defs calibration_later_def upt_conv_Cons)
  from percent_differences_hold_no_entry [OF r] r e show ?thesis by blast
qed

end
